theory Spec2Isabelle
  imports Complex_Main "HOL-Library.Multiset"
begin

text \<open>
  The backtesting core of the Polymarket strategy analyzer: the shared helpers and the
  reference strategies of the strategies module (\<open>resolveMode\<close>, \<open>isMarketEligible\<close>,
  \<open>determineDecisionTime\<close>, \<open>clampPrice\<close>, \<open>copyTradingStrategy\<close>,
  \<open>spikeDetectionStrategy\<close>, \<open>marketMakingStrategy\<close>, \<open>aiGeneratedStrategy\<close>) and
  the class \<open>BacktestEngine\<close> (\<open>backtest\<close>, \<open>isBetWinner\<close>,
  \<open>calculateHistoricalStats\<close>, \<open>prepareMarketSnapshot\<close>), as the two TypeScript files
  stand behind the project overview in \<open>src/PROJECT_OVERVIEW.md\<close>, with the interfaces of
  the types module. The implementation guide quotes an earlier version of both files;
  where the two differ, the files are followed. Writes to the console are left out.
\<close>

section \<open>JavaScript numbers\<close>

text \<open>
  A JavaScript \<open>number\<close> is an IEEE 754 double. A finite double is modelled as the
  real number it denotes, and every arithmetic operation rounds its exact result to the
  nearest double, ties to even (\<open>rnd\<close>). The exponent range is taken unbounded, so
  overflow to Infinity and subnormal numbers are not modelled, and neither is the sign of
  zero. A decimal literal of the source such as \<open>0.8\<close> is the double \<open>rnd (8 / 10)\<close>;
  integers below \<open>2 ^ 53\<close> are doubles as they stand.

  The only non-finite values the modelled code can produce from finite inputs come from
  a division by zero; \<open>jsnum\<close> holds the result of such a division.
\<close>

definition round_even :: "real \<Rightarrow> int" where
  "round_even q =
     (let f = \<lfloor>q\<rfloor>; d = q - of_int f
      in if d < 1 / 2 then f
         else if 1 / 2 < d then f + 1
         else if even f then f else f + 1)"

definition rnd :: "real \<Rightarrow> real" where
  "rnd x =
     (if x = 0 then 0
      else let u = 2 powi (\<lfloor>log 2 \<bar>x\<bar>\<rfloor> - 52)
           in of_int (round_even (x / u)) * u)"

definition fadd :: "real \<Rightarrow> real \<Rightarrow> real" where
  "fadd a b = rnd (a + b)"

definition fsub :: "real \<Rightarrow> real \<Rightarrow> real" where
  "fsub a b = rnd (a - b)"

definition fmul :: "real \<Rightarrow> real \<Rightarrow> real" where
  "fmul a b = rnd (a * b)"

text \<open>\<open>fquot\<close> is the quotient by a divisor that the calling code has made non-zero
  (a non-zero literal, or a length checked before).\<close>

definition fquot :: "real \<Rightarrow> real \<Rightarrow> real" where
  "fquot a b = rnd (a / b)"

definition fpow2 :: "real \<Rightarrow> real" where
  "fpow2 x = rnd (x * x)"

definition fsqrt :: "real \<Rightarrow> real" where
  "fsqrt x = rnd (sqrt x)"

datatype jsnum = Fin real | PInf | NInf | NaN

text \<open>\<open>a / b\<close> of the source for an unchecked divisor.\<close>

definition fdiv :: "real \<Rightarrow> real \<Rightarrow> jsnum" where
  "fdiv a b =
     (if b = 0 then (if 0 < a then PInf else if a < 0 then NInf else NaN)
      else Fin (fquot a b))"

text \<open>\<open>q * c\<close> for a quotient \<open>q\<close> and a finite \<open>c\<close>.\<close>

fun js_times :: "jsnum \<Rightarrow> real \<Rightarrow> jsnum" where
  "js_times (Fin x) c = Fin (fmul x c)"
| "js_times PInf c = (if 0 < c then PInf else if c < 0 then NInf else NaN)"
| "js_times NInf c = (if 0 < c then NInf else if c < 0 then PInf else NaN)"
| "js_times NaN c = NaN"

text \<open>\<open>Math.abs(q) > c\<close> and \<open>q > 0\<close>; a comparison with NaN is false.\<close>

fun js_abs_gt :: "jsnum \<Rightarrow> real \<Rightarrow> bool" where
  "js_abs_gt (Fin x) c = (c < \<bar>x\<bar>)"
| "js_abs_gt PInf c = True"
| "js_abs_gt NInf c = True"
| "js_abs_gt NaN c = False"

fun js_pos :: "jsnum \<Rightarrow> bool" where
  "js_pos (Fin x) = (0 < x)"
| "js_pos PInf = True"
| "js_pos NInf = False"
| "js_pos NaN = False"


section \<open>Library functions\<close>

text \<open>
  \<open>String.prototype.toLowerCase\<close>, on strings of bytes: the letters \<open>A\<close> to \<open>Z\<close>
  are mapped to \<open>a\<close> to \<open>z\<close>, every other character is kept.
\<close>

definition lower_char :: "char \<Rightarrow> char" where
  "lower_char c =
     (let n = (of_char c :: nat)
      in if 65 \<le> n \<and> n \<le> 90 then char_of (n + 32) else c)"

definition toLowerCase :: "string \<Rightarrow> string" where
  "toLowerCase s = map lower_char s"

text \<open>
  \<open>Array.prototype.slice(start, end)\<close> and \<open>slice(start)\<close>: a negative index counts
  from the end, an index beyond the length is the length.
\<close>

definition slice_index :: "nat \<Rightarrow> int \<Rightarrow> nat" where
  "slice_index n i = (if i < 0 then nat (max (int n + i) 0) else min (nat i) n)"

definition js_slice :: "int \<Rightarrow> int \<Rightarrow> 'a list \<Rightarrow> 'a list" where
  "js_slice start fin xs =
     (let k = slice_index (length xs) start; e = slice_index (length xs) fin
      in take (e - k) (drop k xs))"

definition js_slice_from :: "int \<Rightarrow> 'a list \<Rightarrow> 'a list" where
  "js_slice_from start xs = drop (slice_index (length xs) start) xs"

text \<open>
  lodash's \<open>orderBy\<close> and \<open>Array.prototype.sort\<close> are stable sorts. A stable sort is
  determined by the order it sorts by, so both are modelled by the stable insertion sort
  \<open>stable_sort le\<close>, where \<open>le a b\<close> says that \<open>a\<close> need not move behind \<open>b\<close>.
\<close>

fun insort_by :: "('a \<Rightarrow> 'a \<Rightarrow> bool) \<Rightarrow> 'a \<Rightarrow> 'a list \<Rightarrow> 'a list" where
  "insort_by le x [] = [x]"
| "insort_by le x (y # ys) = (if le x y then x # y # ys else y # insort_by le x ys)"

definition stable_sort :: "('a \<Rightarrow> 'a \<Rightarrow> bool) \<Rightarrow> 'a list \<Rightarrow> 'a list" where
  "stable_sort le xs = foldr (insort_by le) xs []"

text \<open>
  lodash compares the values of two dates; \<open>null\<close> sorts behind every date
  (\<open>compareAscending\<close>), and two \<open>null\<close>s are equal.
\<close>

fun null_last_le :: "int option \<Rightarrow> int option \<Rightarrow> bool" where
  "null_last_le _ None = True"
| "null_last_le None (Some _) = False"
| "null_last_le (Some a) (Some b) = (a \<le> b)"

text \<open>
  lodash's \<open>mean\<close> of a non-empty array \<open>x # xs\<close>: the sum from left to right,
  starting with the first element, over the length. (Of the empty array it is NaN.)
\<close>

definition mean_ne :: "real \<Rightarrow> real list \<Rightarrow> real" where
  "mean_ne x xs = fquot (foldl fadd x xs) (real (Suc (length xs)))"


section \<open>Data model\<close>

text \<open>
  The interfaces of the source are records. A field name that several interfaces share
  carries a prefix here (\<open>pp_\<close> for a price point, \<open>tr_\<close> for a trade, \<open>b_\<close> for
  a bet, \<open>ep_\<close> for an earnings point, \<open>vm_\<close> for an entry of the volatility
  ranking), and \<open>id\<close>, \<open>name\<close>, \<open>type\<close> and \<open>image\<close> are renamed. The untyped
  \<open>parameters\<close> of a strategy are an argument of the strategy that reads them.
\<close>

text \<open>A \<open>Date\<close> is its time value, the milliseconds since the epoch; it is taken to be
  valid, so that arithmetic on time values stays exact.\<close>

type_synonym date = int

datatype Side = Buy | Sell

datatype StrategyMode = Live | Backtest

datatype BetResult = Win | Loss | Pending

datatype StrategyType = TCopyTrading | TSpikeDetection | TMarketMaking | TAiGenerated

datatype error = TypeError | StrategyFailure string

record PricePoint =
  pp_timestamp :: date
  pp_price :: real
  pp_outcome :: string

record Trade =
  tr_timestamp :: date
  tr_side :: Side
  tr_amount :: real
  tr_price :: real
  tr_outcome :: string
  maker :: "string option"
  taker :: "string option"

record PolymarketMarket =
  marketId :: string
  question :: string
  outcomes :: "string list"
  resolutionDate :: "date option"
  historicalPrices :: "PricePoint list"
  trades :: "Trade list"
  resolvedOutcome :: "string option"
  volume :: real
  liquidity :: real
  active :: bool
  endDate :: "date option"
  market_image :: "string option"
  category :: "string option"

text \<open>
  The \<open>reason\<close> of a bet is a text the strategies build from numbers with
  \<open>toFixed\<close>. The model keeps the numbers the text is printed from.
\<close>

datatype Reason =
    ReasonText string
  | WhaleReason real real
  | SpikeReason jsnum real
  | BidReason real
  | AskReason real

text \<open>
  The \<open>outcome\<close> of a bet is \<open>None\<close> when the strategy read it from
  \<open>market.outcomes[0]\<close> of an empty array, which is \<open>undefined\<close>.
\<close>

record Bet =
  b_marketId :: string
  b_outcome :: "string option"
  b_side :: Side
  b_amount :: real
  b_priceLimit :: real
  b_reason :: Reason
  b_timestamp :: date

record BacktestBet = Bet +
  result :: BetResult
  payout :: real
  cost :: real

record EarningsPoint =
  ep_timestamp :: date
  cumulativeEarnings :: real
  ep_strategyId :: string

record BacktestResult =
  strategyId :: string
  strategyName :: string
  totalBets :: nat
  wins :: nat
  losses :: nat
  winRate :: jsnum
  totalCost :: real
  totalWinnings :: real
  netProfit :: real
  roi :: jsnum
  bets :: "BacktestBet list"
  earningsOverTime :: "EarningsPoint list"

record StrategyContext =
  mode :: "StrategyMode option"
  asOf :: "date option"
  trainingMarkets :: "PolymarketMarket list option"
  evaluationMarkets :: "PolymarketMarket list option"

text \<open>
  \<open>generateBets\<close> is any function of the source; it may read the clock
  (\<open>new Date()\<close>) and it may throw. The first argument is the wall-clock time at the
  call, and a thrown error is \<open>Inl\<close>.
\<close>

record Strategy =
  strategy_id :: string
  strategy_name :: string
  description :: string
  strategy_type :: StrategyType
  generateBets :: "date \<Rightarrow> PolymarketMarket list \<Rightarrow> StrategyContext \<Rightarrow> error + Bet list"


section \<open>Shared helpers of the strategies\<close>

definition resolveMode :: "StrategyContext \<Rightarrow> StrategyMode" where
  "resolveMode context = (case mode context of None \<Rightarrow> Live | Some m \<Rightarrow> m)"

text \<open>A string or \<open>null\<close> is truthy when it is a non-empty string.\<close>

definition truthy :: "string option \<Rightarrow> bool" where
  "truthy s = (case s of None \<Rightarrow> False | Some t \<Rightarrow> t \<noteq> [])"

definition isMarketEligible :: "PolymarketMarket \<Rightarrow> StrategyMode \<Rightarrow> bool" where
  "isMarketEligible market md =
     (if md = Backtest then True
      else \<not> truthy (resolvedOutcome market) \<and> active market)"

definition determineDecisionTime :: "date \<Rightarrow> PolymarketMarket \<Rightarrow> StrategyMode \<Rightarrow> date" where
  "determineDecisionTime now market md =
     (case md of
        Backtest \<Rightarrow>
          (if length (historicalPrices market) > 0
           then pp_timestamp (historicalPrices market ! (length (historicalPrices market) - 1))
           else (case endDate market of
                   Some d \<Rightarrow> d
                 | None \<Rightarrow> (case resolutionDate market of Some d \<Rightarrow> d | None \<Rightarrow> now)))
      | Live \<Rightarrow> now)"

definition clampPrice :: "real \<Rightarrow> real" where
  "clampPrice price = max (rnd (1 / 100)) (min (rnd (99 / 100)) price)"

text \<open>\<open>market.outcomes[0]\<close>.\<close>

definition first_outcome :: "PolymarketMarket \<Rightarrow> string option" where
  "first_outcome market = (case outcomes market of [] \<Rightarrow> None | x # _ \<Rightarrow> Some x)"


section \<open>The backtest engine: settlement\<close>

text \<open>
  \<open>isBetWinner\<close> calls \<open>toLowerCase\<close> on the outcome of the bet, which throws a
  TypeError when the outcome is \<open>undefined\<close>.
\<close>

definition isBetWinner :: "'a Bet_scheme \<Rightarrow> string \<Rightarrow> error + bool" where
  "isBetWinner bet resolved =
     (case b_outcome bet of
        None \<Rightarrow> Inl TypeError
      | Some oc \<Rightarrow>
          (if b_side bet = Buy
           then Inr (toLowerCase oc = toLowerCase resolved)
           else Inr (toLowerCase oc \<noteq> toLowerCase resolved)))"


text \<open>\<open>testMarkets.find((m) => m.marketId === bet.marketId)\<close>: the first match.\<close>

definition find_market :: "PolymarketMarket list \<Rightarrow> string \<Rightarrow> PolymarketMarket option" where
  "find_market testMarkets mid = find (\<lambda>m. marketId m = mid) testMarkets"

text \<open>The three variables the \<open>forEach\<close> over the proposed bets updates.\<close>

record SimState =
  backtestBets :: "BacktestBet list"
  cumulative :: real
  earnings :: "EarningsPoint list"

definition initial_state :: SimState where
  "initial_state = \<lparr>backtestBets = [], cumulative = 0, earnings = []\<rparr>"

definition score_bet :: "Bet \<Rightarrow> bool \<Rightarrow> BacktestBet" where
  "score_bet bet betWon =
     \<lparr>b_marketId = b_marketId bet, b_outcome = b_outcome bet, b_side = b_side bet,
      b_amount = b_amount bet, b_priceLimit = b_priceLimit bet, b_reason = b_reason bet,
      b_timestamp = b_timestamp bet,
      result = (if betWon then Win else Loss),
      payout = (if betWon then b_amount bet else 0),
      cost = fmul (b_amount bet) (b_priceLimit bet)\<rparr>"

text \<open>One round of the \<open>forEach\<close>: \<open>return\<close> leaves the state as it is.\<close>

definition simulate_bet ::
  "string \<Rightarrow> PolymarketMarket list \<Rightarrow> SimState \<Rightarrow> Bet \<Rightarrow> error + SimState" where
  "simulate_bet sid testMarkets st bet =
     (case find_market testMarkets (b_marketId bet) of
        None \<Rightarrow> Inr st
      | Some market \<Rightarrow>
          (if \<not> truthy (resolvedOutcome market) then Inr st
           else (case isBetWinner bet (the (resolvedOutcome market)) of
                   Inl e \<Rightarrow> Inl e
                 | Inr betWon \<Rightarrow>
                     (let bb = score_bet bet betWon;
                          cumulativeEarnings' = fadd (cumulative st) (fsub (payout bb) (cost bb))
                      in Inr \<lparr>backtestBets = backtestBets st @ [bb],
                              cumulative = cumulativeEarnings',
                              earnings = earnings st @
                                [\<lparr>ep_timestamp = b_timestamp bet,
                                  cumulativeEarnings = cumulativeEarnings',
                                  ep_strategyId = sid\<rparr>]\<rparr>))))"

fun simulate ::
  "string \<Rightarrow> PolymarketMarket list \<Rightarrow> Bet list \<Rightarrow> SimState \<Rightarrow> error + SimState" where
  "simulate sid testMarkets [] st = Inr st"
| "simulate sid testMarkets (bet # rest) st =
     (case simulate_bet sid testMarkets st bet of
        Inl e \<Rightarrow> Inl e
      | Inr st' \<Rightarrow> simulate sid testMarkets rest st')"


section \<open>The backtest engine: split, snapshot, metrics\<close>

definition by_timestamp_pp :: "PricePoint \<Rightarrow> PricePoint \<Rightarrow> bool" where
  "by_timestamp_pp a b = (pp_timestamp a \<le> pp_timestamp b)"

definition by_timestamp_tr :: "Trade \<Rightarrow> Trade \<Rightarrow> bool" where
  "by_timestamp_tr a b = (tr_timestamp a \<le> tr_timestamp b)"

definition by_endDate :: "PolymarketMarket \<Rightarrow> PolymarketMarket \<Rightarrow> bool" where
  "by_endDate a b = null_last_le (endDate a) (endDate b)"

text \<open>The spread copies of the price points and of the trades have the values of the
  originals.\<close>

definition prepareMarketSnapshot :: "PolymarketMarket \<Rightarrow> PolymarketMarket" where
  "prepareMarketSnapshot market =
     market\<lparr>active := True,
            resolvedOutcome := None,
            historicalPrices := stable_sort by_timestamp_pp (historicalPrices market),
            trades := stable_sort by_timestamp_tr (trades market)\<rparr>"

definition default_trainingRatio :: real where
  "default_trainingRatio = rnd (8 / 10)"

definition resolved_markets :: "PolymarketMarket list \<Rightarrow> PolymarketMarket list" where
  "resolved_markets markets = filter (\<lambda>m. resolvedOutcome m \<noteq> None) markets"

definition sorted_markets :: "PolymarketMarket list \<Rightarrow> PolymarketMarket list" where
  "sorted_markets markets = stable_sort by_endDate (resolved_markets markets)"

definition split_index :: "PolymarketMarket list \<Rightarrow> real \<Rightarrow> int" where
  "split_index markets trainingRatio =
     \<lfloor>fmul (real (length (sorted_markets markets))) trainingRatio\<rfloor>"

definition test_markets :: "PolymarketMarket list \<Rightarrow> real \<Rightarrow> PolymarketMarket list" where
  "test_markets markets trainingRatio =
     js_slice_from (split_index markets trainingRatio) (sorted_markets markets)"

definition training_markets :: "PolymarketMarket list \<Rightarrow> real \<Rightarrow> PolymarketMarket list" where
  "training_markets markets trainingRatio =
     js_slice 0 (split_index markets trainingRatio) (sorted_markets markets)"

definition prepared_test_markets :: "PolymarketMarket list \<Rightarrow> real \<Rightarrow> PolymarketMarket list" where
  "prepared_test_markets markets trainingRatio =
     map prepareMarketSnapshot (test_markets markets trainingRatio)"

definition backtest_context :: "PolymarketMarket list \<Rightarrow> real \<Rightarrow> StrategyContext" where
  "backtest_context markets trainingRatio =
     \<lparr>mode = Some Backtest, asOf = None,
      trainingMarkets = Some (training_markets markets trainingRatio),
      evaluationMarkets = Some (test_markets markets trainingRatio)\<rparr>"

definition metrics :: "Strategy \<Rightarrow> SimState \<Rightarrow> BacktestResult" where
  "metrics strategy st =
     (let bbs = backtestBets st;
          wins' = length (filter (\<lambda>b. result b = Win) bbs);
          losses' = length (filter (\<lambda>b. result b = Loss) bbs);
          totalCost' = foldl (\<lambda>sum b. fadd sum (cost b)) 0 bbs;
          totalWinnings' = foldl (\<lambda>sum b. fadd sum (payout b)) 0 bbs;
          netProfit' = fsub totalWinnings' totalCost';
          roi' = (if 0 < totalCost' then js_times (fdiv netProfit' totalCost') 100 else Fin 0)
      in \<lparr>strategyId = strategy_id strategy,
          strategyName = strategy_name strategy,
          totalBets = length bbs,
          wins = wins',
          losses = losses',
          winRate = (if 0 < length bbs
                     then js_times (fdiv (real wins') (real (length bbs))) 100
                     else Fin 0),
          totalCost = totalCost',
          totalWinnings = totalWinnings',
          netProfit = netProfit',
          roi = roi',
          bets = bbs,
          earningsOverTime = earnings st\<rparr>)"

text \<open>
  \<open>BacktestEngine.backtest\<close>. \<open>now\<close> is the wall-clock time of the run. An error
  thrown by the strategy or by \<open>isBetWinner\<close> is not caught.
\<close>

definition backtest ::
  "date \<Rightarrow> Strategy \<Rightarrow> PolymarketMarket list \<Rightarrow> real \<Rightarrow> error + BacktestResult" where
  "backtest now strategy markets trainingRatio =
     (case generateBets strategy now (prepared_test_markets markets trainingRatio)
             (backtest_context markets trainingRatio) of
        Inl e \<Rightarrow> Inl e
      | Inr proposedBets \<Rightarrow>
          (case simulate (strategy_id strategy) (test_markets markets trainingRatio)
                  proposedBets initial_state of
             Inl e \<Rightarrow> Inl e
           | Inr st \<Rightarrow> Inr (metrics strategy st)))"


section \<open>Historical statistics\<close>

record VolatileMarket =
  vm_marketId :: string
  vm_question :: string
  variance :: real


text \<open>The variance of a market; the divisor is the number of its price points, which
  the filter before has made greater than 10.\<close>

definition variance_of :: "real list \<Rightarrow> real" where
  "variance_of prices =
     fquot (foldl (\<lambda>sum p. fadd sum (fpow2 (fsub p (1 / 2)))) 0 prices)
           (real (length prices))"

definition volatile_entry :: "PolymarketMarket \<Rightarrow> VolatileMarket" where
  "volatile_entry m =
     \<lparr>vm_marketId = marketId m, vm_question = question m,
      variance = variance_of (map pp_price (historicalPrices m))\<rparr>"

text \<open>The comparator \<open>(a, b) => b.variance - a.variance\<close>: \<open>a\<close> stays before \<open>b\<close>
  unless the difference is positive.\<close>

definition by_variance_desc :: "VolatileMarket \<Rightarrow> VolatileMarket \<Rightarrow> bool" where
  "by_variance_desc a b = (fsub (variance b) (variance a) \<le> 0)"

definition volatile_markets :: "PolymarketMarket list \<Rightarrow> VolatileMarket list" where
  "volatile_markets markets =
     js_slice 0 5
       (stable_sort by_variance_desc
          (map volatile_entry
             (filter (\<lambda>m. length (historicalPrices m) > 10) markets)))"




section \<open>The reference strategies\<close>

record CopyTradingParams =
  minWhaleVolume :: real
  copyDelay :: real
  betSize :: real
  maxBetsPerMarket :: int
  minMarketLiquidity :: real

definition COPY_TRADING_DEFAULTS :: CopyTradingParams where
  "COPY_TRADING_DEFAULTS =
     \<lparr>minWhaleVolume = 1000, copyDelay = 7200, betSize = 100,
      maxBetsPerMarket = 3, minMarketLiquidity = 50000\<rparr>"

definition by_amount_desc :: "Trade \<Rightarrow> Trade \<Rightarrow> bool" where
  "by_amount_desc a b = (tr_amount b \<le> tr_amount a)"

text \<open>The body of the \<open>forEach\<close> over the markets: the bets one market adds.\<close>

definition copyTrading_market ::
  "CopyTradingParams \<Rightarrow> date \<Rightarrow> StrategyMode \<Rightarrow> PolymarketMarket \<Rightarrow> Bet list" where
  "copyTrading_market params now md market =
     (if \<not> isMarketEligible market md then []
      else if liquidity market < minMarketLiquidity params then []
      else
        let decisionTime = determineDecisionTime now market md;
            whaleTrades =
              filter (\<lambda>trade. \<not> tr_amount trade < minWhaleVolume params
                             \<and> tr_timestamp trade \<le> decisionTime) (trades market);
            recentWhales =
              filter (\<lambda>trade.
                        let timeDiff = fquot (fsub (real_of_int decisionTime)
                                                   (real_of_int (tr_timestamp trade))) 1000
                        in 0 \<le> timeDiff \<and> timeDiff \<le> copyDelay params) whaleTrades;
            topWhales =
              js_slice 0 (maxBetsPerMarket params) (stable_sort by_amount_desc recentWhales)
        in map (\<lambda>whaleTrade.
                  \<lparr>b_marketId = marketId market,
                   b_outcome = Some (tr_outcome whaleTrade),
                   b_side = tr_side whaleTrade,
                   b_amount = betSize params,
                   b_priceLimit = clampPrice (fadd (tr_price whaleTrade) (rnd (2 / 100))),
                   b_reason = WhaleReason (tr_amount whaleTrade) (tr_price whaleTrade),
                   b_timestamp = decisionTime\<rparr>) topWhales)"

text \<open>The strategy reads its parameters from \<open>copyTradingStrategy.parameters\<close> at each
  call; they are an argument here.\<close>

definition copyTradingStrategy :: "CopyTradingParams \<Rightarrow> Strategy" where
  "copyTradingStrategy params =
     \<lparr>strategy_id = ''copy_trading'',
      strategy_name = ''Whale Copy Trading'',
      description = ''Copy trades from high-volume addresses (whales) within 1 hour'',
      strategy_type = TCopyTrading,
      generateBets = (\<lambda>now markets context.
         Inr (concat (map (copyTrading_market params now (resolveMode context)) markets)))\<rparr>"

definition spikeThreshold :: real where
  "spikeThreshold = rnd (5 / 100)"

definition lookbackWindow :: int where
  "lookbackWindow = 24"

definition spike_betSize :: real where
  "spike_betSize = 100"

definition spikeDetection_market :: "date \<Rightarrow> StrategyMode \<Rightarrow> PolymarketMarket \<Rightarrow> Bet list" where
  "spikeDetection_market now md market =
     (if \<not> isMarketEligible market md then []
      else if length (historicalPrices market) < 10 then []
      else
        let decisionTime = determineDecisionTime now market md;
            sortedPrices = stable_sort by_timestamp_pp (historicalPrices market);
            cutoffTime = decisionTime - lookbackWindow * 60 * 60 * 1000;
            recentPrices =
              filter (\<lambda>p. cutoffTime \<le> pp_timestamp p \<and> pp_timestamp p \<le> decisionTime)
                sortedPrices
        in if length recentPrices < 5 then []
           else (case recentPrices of
                   [] \<Rightarrow> []
                 | p # ps \<Rightarrow>
                     let avgPrice = mean_ne (pp_price p) (map pp_price ps);
                         currentPrice = pp_price (recentPrices ! (length recentPrices - 1));
                         priceChange = fdiv (fsub currentPrice avgPrice) avgPrice
                     in if js_abs_gt priceChange spikeThreshold
                        then
                          let betSide = (if js_pos priceChange then Sell else Buy);
                              targetPrice =
                                (if betSide = Sell then fsub currentPrice (rnd (3 / 100))
                                 else fadd currentPrice (rnd (3 / 100)))
                          in [\<lparr>b_marketId = marketId market,
                               b_outcome = first_outcome market,
                               b_side = betSide,
                               b_amount = spike_betSize,
                               b_priceLimit = clampPrice targetPrice,
                               b_reason = SpikeReason priceChange avgPrice,
                               b_timestamp = decisionTime\<rparr>]
                        else []))"

definition spikeDetectionStrategy :: Strategy where
  "spikeDetectionStrategy =
     \<lparr>strategy_id = ''spike_detection'',
      strategy_name = ''Price Spike Reversal'',
      description = ''Detect price spikes >5% and bet on mean reversion'',
      strategy_type = TSpikeDetection,
      generateBets = (\<lambda>now markets context.
         Inr (concat (map (spikeDetection_market now (resolveMode context)) markets)))\<rparr>"

definition minSpread :: real where
  "minSpread = rnd (2 / 100)"

definition maxSpread :: real where
  "maxSpread = rnd (8 / 100)"

definition betSizePerSide :: real where
  "betSizePerSide = 100"

definition minLiquidity :: real where
  "minLiquidity = 30000"

definition marketMaking_market :: "date \<Rightarrow> StrategyMode \<Rightarrow> PolymarketMarket \<Rightarrow> Bet list" where
  "marketMaking_market now md market =
     (if \<not> isMarketEligible market md then []
      else if liquidity market < minLiquidity then []
      else if length (historicalPrices market) = 0 then []
      else
        let currentPrice =
              pp_price (historicalPrices market ! (length (historicalPrices market) - 1));
            decisionTime = determineDecisionTime now market md;
            recentPrices = js_slice_from (- 20) (historicalPrices market);
            sq = (\<lambda>p. fpow2 (fsub (pp_price p) currentPrice));
            volatility =
              (case recentPrices of
                 p1 # p2 # rest \<Rightarrow> fsqrt (mean_ne (sq p1) (map sq (p2 # rest)))
               | _ \<Rightarrow> rnd (3 / 100));
            spread = max minSpread (min maxSpread (fmul volatility 2))
        in [\<lparr>b_marketId = marketId market,
             b_outcome = first_outcome market,
             b_side = Buy,
             b_amount = betSizePerSide,
             b_priceLimit = clampPrice (fsub currentPrice (fquot spread 2)),
             b_reason = BidReason (fsub currentPrice (fquot spread 2)),
             b_timestamp = decisionTime\<rparr>,
            \<lparr>b_marketId = marketId market,
             b_outcome = first_outcome market,
             b_side = Sell,
             b_amount = betSizePerSide,
             b_priceLimit = clampPrice (fadd currentPrice (fquot spread 2)),
             b_reason = AskReason (fadd currentPrice (fquot spread 2)),
             b_timestamp = decisionTime\<rparr>])"

definition marketMakingStrategy :: Strategy where
  "marketMakingStrategy =
     \<lparr>strategy_id = ''market_making'',
      strategy_name = ''Liquidity Provider Market Making'',
      description = ''Place balanced bids/asks with spreads for high-liquidity markets'',
      strategy_type = TMarketMaking,
      generateBets = (\<lambda>now markets context.
         Inr (concat (map (marketMaking_market now (resolveMode context)) markets)))\<rparr>"

definition aiGeneratedStrategy :: Strategy where
  "aiGeneratedStrategy =
     \<lparr>strategy_id = ''ai_generated'',
      strategy_name = ''AI-Generated Strategy'',
      description = ''Dynamically generated by OpenAI based on market conditions'',
      strategy_type = TAiGenerated,
      generateBets = (\<lambda>now markets context. Inr [])\<rparr>"


section \<open>Predicates and inputs used in the statements\<close>

text \<open>A bet that cannot be scored: no test market has its \<open>marketId\<close>, or the first
  test market that has it is unresolved.\<close>

definition unresolvable :: "PolymarketMarket list \<Rightarrow> 'a Bet_scheme \<Rightarrow> bool" where
  "unresolvable tms bet =
     (case find_market tms (b_marketId bet) of
        None \<Rightarrow> True
      | Some market \<Rightarrow> resolvedOutcome market = None)"

text \<open>The settlement rule in the words of the specification: a buy wins if and only if
  its outcome equals the resolved outcome, compared without regard to case; a sell wins
  if and only if it does not.\<close>

definition spec_win :: "Side \<Rightarrow> string \<Rightarrow> string \<Rightarrow> bool" where
  "spec_win side oc resolved =
     (if side = Buy then toLowerCase oc = toLowerCase resolved
      else toLowerCase oc \<noteq> toLowerCase resolved)"

definition settled_by_rule :: "PolymarketMarket list \<Rightarrow> BacktestBet \<Rightarrow> bool" where
  "settled_by_rule tms bb =
     (\<exists>market resolved oc.
        find_market tms (b_marketId bb) = Some market \<and>
        resolvedOutcome market = Some resolved \<and>
        b_outcome bb = Some oc \<and>
        result bb = (if spec_win (b_side bb) oc resolved then Win else Loss))"

text \<open>The earnings of a list of scored bets, added up from left to right from \<open>c\<close> as
  the loop does, and the list of the sums after each bet.\<close>

definition running_sum :: "real \<Rightarrow> BacktestBet list \<Rightarrow> real" where
  "running_sum c bbs = foldl (\<lambda>c b. fadd c (fsub (payout b) (cost b))) c bbs"

fun running_sums :: "real \<Rightarrow> BacktestBet list \<Rightarrow> real list" where
  "running_sums c [] = []"
| "running_sums c (b # bs) =
     fadd c (fsub (payout b) (cost b)) # running_sums (fadd c (fsub (payout b) (cost b))) bs"

text \<open>What the loop over the proposed bets keeps true of its three variables.\<close>

definition earnings_inv :: "SimState \<Rightarrow> bool" where
  "earnings_inv st =
     (map cumulativeEarnings (earnings st) = running_sums 0 (backtestBets st) \<and>
      cumulative st = running_sum 0 (backtestBets st) \<and>
      list_all (\<lambda>bb. result bb = Win \<or> result bb = Loss) (backtestBets st))"



text \<open>A market whose decision time in backtest mode does not fall back to the clock.\<close>

definition has_decision_source :: "PolymarketMarket \<Rightarrow> bool" where
  "has_decision_source m =
     (historicalPrices m \<noteq> [] \<or> endDate m \<noteq> None \<or> resolutionDate m \<noteq> None)"

definition reference_strategies :: "CopyTradingParams \<Rightarrow> Strategy list" where
  "reference_strategies params =
     [copyTradingStrategy params, spikeDetectionStrategy, marketMakingStrategy,
      aiGeneratedStrategy]"

text \<open>The entries the volatility ranking is chosen from.\<close>

definition candidates :: "PolymarketMarket list \<Rightarrow> VolatileMarket list" where
  "candidates markets =
     map volatile_entry (filter (\<lambda>m. 10 < length (historicalPrices m)) markets)"

text \<open>A strategy that proposes the same bets whatever it is given.\<close>

definition fixed_strategy :: "Bet list \<Rightarrow> Strategy" where
  "fixed_strategy proposed =
     \<lparr>strategy_id = ''fixed'', strategy_name = ''Fixed bets'', description = [],
      strategy_type = TAiGenerated,
      generateBets = (\<lambda>now markets context. Inr proposed)\<rparr>"

text \<open>A market resolved to Yes, without price history, trades or dates.\<close>

definition market_yes :: PolymarketMarket where
  "market_yes =
     \<lparr>marketId = ''m1'', question = ''Q1'', outcomes = [''Yes'', ''No''],
      resolutionDate = None, historicalPrices = [], trades = [],
      resolvedOutcome = Some ''Yes'', volume = 0, liquidity = 100000, active = False,
      endDate = None, market_image = None, category = None\<rparr>"

text \<open>A bet on the outcome Yes.\<close>

definition bet_on :: "string \<Rightarrow> Side \<Rightarrow> real \<Rightarrow> real \<Rightarrow> Bet" where
  "bet_on mid side amount priceLimit =
     \<lparr>b_marketId = mid, b_outcome = Some ''Yes'', b_side = side, b_amount = amount,
      b_priceLimit = priceLimit, b_reason = ReasonText [], b_timestamp = 0\<rparr>"

text \<open>\<open>market_yes\<close> with one price point, at time 500; with one large trade, at time 0;
  with eleven price points of the same price; with two price points out of order.\<close>

definition market_priced :: PolymarketMarket where
  "market_priced =
     market_yes\<lparr>historicalPrices :=
       [\<lparr>pp_timestamp = 500, pp_price = 1 / 2, pp_outcome = ''Yes''\<rparr>]\<rparr>"

definition market_whale :: PolymarketMarket where
  "market_whale =
     market_yes\<lparr>trades :=
       [\<lparr>tr_timestamp = 0, tr_side = Buy, tr_amount = 5000, tr_price = 1 / 2,
         tr_outcome = ''Yes'', maker = None, taker = None\<rparr>]\<rparr>"

definition market_flat :: "string \<Rightarrow> real \<Rightarrow> PolymarketMarket" where
  "market_flat mid p =
     market_yes\<lparr>marketId := mid,
       historicalPrices :=
         map (\<lambda>t. \<lparr>pp_timestamp = t, pp_price = p, pp_outcome = ''Yes''\<rparr>)
           [1, 2, 3, 4, 5, 6, 7, 8, 9, 10, 11]\<rparr>"

definition market_unsorted :: PolymarketMarket where
  "market_unsorted =
     market_yes\<lparr>historicalPrices :=
       [\<lparr>pp_timestamp = 900, pp_price = 3 / 4, pp_outcome = ''Yes''\<rparr>,
        \<lparr>pp_timestamp = 100, pp_price = 1 / 4, pp_outcome = ''Yes''\<rparr>]\<rparr>"

text \<open>Two scenarios of the specification: a market with one trade of 5000 at 0.60, one
  hour before its last price point; and a market with 24 hourly price points, all at
  0.50 but the last, at 0.60.\<close>

definition scenario_whale :: PolymarketMarket where
  "scenario_whale =
     market_yes\<lparr>
       historicalPrices :=
         [\<lparr>pp_timestamp = 3600000, pp_price = rnd (3 / 5), pp_outcome = ''Yes''\<rparr>],
       trades :=
         [\<lparr>tr_timestamp = 0, tr_side = Buy, tr_amount = 5000, tr_price = rnd (3 / 5),
           tr_outcome = ''Yes'', maker = None, taker = None\<rparr>]\<rparr>"

definition scenario_spike :: PolymarketMarket where
  "scenario_spike =
     market_yes\<lparr>
       historicalPrices :=
         map (\<lambda>k. \<lparr>pp_timestamp = k * 3600000, pp_price = 1 / 2, pp_outcome = ''Yes''\<rparr>)
           [1, 2, 3, 4, 5, 6, 7, 8, 9, 10, 11, 12, 13, 14, 15, 16, 17, 18, 19, 20, 21, 22, 23]
         @ [\<lparr>pp_timestamp = 24 * 3600000, pp_price = rnd (3 / 5), pp_outcome = ''Yes''\<rparr>]\<rparr>"


section \<open>Rounding\<close>

text \<open>
  \<open>rnd\<close> keeps the sign of its argument, commutes with negation, leaves a number with
  a significand of at most 53 bits as it is, and never crosses such a number: they are
  the doubles. \<open>rnd_eval\<close> computes \<open>rnd\<close> once the binade of the argument is known.
\<close>

lemma round_even_bounds: "\<lfloor>q\<rfloor> \<le> round_even q \<and> round_even q \<le> \<lfloor>q\<rfloor> + 1"
  by (simp add: round_even_def Let_def)

lemma round_even_of_int [simp]: "round_even (of_int n) = n"
  by (simp add: round_even_def Let_def)

lemma round_even_le: "q \<le> of_int N \<Longrightarrow> round_even q \<le> N"
proof (cases "q = of_int N")
  case True
  then show ?thesis by simp
next
  case False
  assume "q \<le> of_int N"
  with False have "q < of_int N" by simp
  then have "\<lfloor>q\<rfloor> < N" by (simp add: floor_less_iff)
  with round_even_bounds[of q] show ?thesis by linarith
qed

lemma round_even_ge: "of_int N \<le> q \<Longrightarrow> N \<le> round_even q"
proof -
  assume "of_int N \<le> q"
  then have "N \<le> \<lfloor>q\<rfloor>" by (simp add: le_floor_iff)
  with round_even_bounds[of q] show ?thesis by linarith
qed

lemma floor_log2_eq:
  assumes "2 powi e \<le> \<bar>x\<bar>" "\<bar>x\<bar> < 2 powi (e + 1)"
  shows "\<lfloor>log 2 \<bar>x\<bar>\<rfloor> = e"
proof -
  have pos: "0 < \<bar>x\<bar>"
    using assms(1) zero_less_power_int[of "2::real" e] by linarith
  have a: "(2::real) powr real_of_int e = 2 powi e"
    by (rule powr_real_of_int') simp_all
  have b: "(2::real) powr real_of_int (e + 1) = 2 powi (e + 1)"
    by (rule powr_real_of_int') simp_all
  show ?thesis
    using assms floor_log_eq_powr_iff[OF pos, of 2 e] a b by simp
qed

lemma log2_binade:
  assumes "x \<noteq> 0"
  shows "2 powi \<lfloor>log 2 \<bar>x\<bar>\<rfloor> \<le> \<bar>x\<bar> \<and> \<bar>x\<bar> < 2 powi (\<lfloor>log 2 \<bar>x\<bar>\<rfloor> + 1)"
proof -
  have pos: "0 < \<bar>x\<bar>" using assms by simp
  have a: "(2::real) powr real_of_int e = 2 powi e" for e
    by (rule powr_real_of_int') simp_all
  have b: "(2::real) powr (real_of_int e + 1) = 2 powi (e + 1)" for e
    using a[of "e + 1"] by simp
  show ?thesis
    using floor_log_eq_powr_iff[OF pos, of 2 "\<lfloor>log 2 \<bar>x\<bar>\<rfloor>"] a b by simp
qed

lemma rnd_eval:
  assumes "2 powi e \<le> \<bar>x\<bar>" "\<bar>x\<bar> < 2 powi (e + 1)"
  shows "rnd x = of_int (round_even (x / 2 powi (e - 52))) * 2 powi (e - 52)"
proof -
  have "0 < \<bar>x\<bar>"
    using assms(1) zero_less_power_int[of "2::real" e] by linarith
  then have "x \<noteq> 0" by simp
  then show ?thesis by (simp add: rnd_def Let_def floor_log2_eq[OF assms])
qed

lemma rnd_0 [simp]: "rnd 0 = 0"
  by (simp add: rnd_def)

lemma rnd_pos: assumes "0 < x" shows "0 < rnd x"
proof -
  define e where "e = \<lfloor>log 2 \<bar>x\<bar>\<rfloor>"
  have x: "x \<noteq> 0" using assms by simp
  have b: "2 powi e \<le> x" using log2_binade[OF x] assms by (simp add: e_def)
  have u: "0 < (2::real) powi (e - 52)" by (simp add: zero_less_power_int)
  have "2 powi e / 2 powi (e - 52) = (2::real) powi 52"
    by (simp add: power_int_diff)
  then have "of_int (2 ^ 52) \<le> x / 2 powi (e - 52)"
    using b u by (simp add: divide_le_cancel field_simps)
  then have "2 ^ 52 \<le> round_even (x / 2 powi (e - 52))" by (rule round_even_ge)
  moreover have "(0::int) < 2 ^ 52" by simp
  ultimately have "0 < round_even (x / 2 powi (e - 52))" by linarith
  then show ?thesis using u x by (simp add: rnd_def Let_def e_def[symmetric])
qed

lemma round_even_minus: "round_even (- q) = - round_even q"
proof (cases "q = of_int \<lfloor>q\<rfloor>")
  case True
  have "round_even (- of_int \<lfloor>q\<rfloor>) = - round_even (of_int \<lfloor>q\<rfloor>)"
    by (simp flip: of_int_minus)
  then show ?thesis by (subst (1 2) True) simp
next
  case False
  then have fl: "\<lfloor>- q\<rfloor> = - \<lfloor>q\<rfloor> - 1"
    using ceiling_altdef[of q] by (simp add: ceiling_def)
  have "round_even (- q) =
          (if - q - of_int (- \<lfloor>q\<rfloor> - 1) < 1 / 2 then - \<lfloor>q\<rfloor> - 1
           else if 1 / 2 < - q - of_int (- \<lfloor>q\<rfloor> - 1) then - \<lfloor>q\<rfloor>
           else if even (- \<lfloor>q\<rfloor> - 1) then - \<lfloor>q\<rfloor> - 1 else - \<lfloor>q\<rfloor>)"
    by (simp add: round_even_def Let_def fl)
  also have "\<dots> = - round_even q"
    by (simp add: round_even_def Let_def)
  finally show ?thesis .
qed

lemma rnd_minus: "rnd (- x) = - rnd x"
  by (simp add: rnd_def Let_def round_even_minus)

lemma rnd_neg: "x < 0 \<Longrightarrow> rnd x < 0"
  using rnd_pos[of "- x"] by (simp add: rnd_minus)

lemma rnd_le_0_iff: "rnd x \<le> 0 \<longleftrightarrow> x \<le> 0"
proof (cases "x \<le> 0")
  case True
  then show ?thesis using rnd_neg[of x] by (cases "x = 0") auto
next
  case False
  then show ?thesis using rnd_pos[of x] by auto
qed


lemma repr_exponent:
  assumes m: "\<bar>m\<bar> < 2 ^ 53" and e: "2 powi e \<le> \<bar>of_int m * 2 powi k :: real\<bar>"
  shows "e - 52 \<le> k"
proof -
  have "\<bar>of_int m * 2 powi k :: real\<bar> = of_int \<bar>m\<bar> * 2 powi k"
    by (simp add: abs_mult)
  also have "\<dots> < of_int (2 ^ 53) * 2 powi k"
    using m by (intro mult_strict_right_mono) (simp_all add: zero_less_power_int del: of_int_power of_int_numeral)
  also have "\<dots> = 2 powi (53 + k)"
    by (simp add: power_int_add)
  finally have lt: "(2::real) powi e < 2 powi (53 + k)" using e by linarith
  have "e < 53 + k"
  proof (rule ccontr)
    assume "\<not> e < 53 + k"
    then have "(2::real) powi (53 + k) \<le> 2 powi e"
      by (intro power_int_increasing) simp_all
    with lt show False by simp
  qed
  then show ?thesis by linarith
qed

lemma repr_scaled:
  assumes "e - 52 \<le> k"
  shows "of_int m * 2 powi k / 2 powi (e - 52) = (of_int (m * 2 ^ nat (k - (e - 52))) :: real)"
proof -
  have "(2::real) powi k / 2 powi (e - 52) = 2 powi (k - (e - 52))"
    by (simp add: power_int_diff)
  also have "\<dots> = 2 ^ nat (k - (e - 52))"
    using assms by (simp add: power_int_def)
  finally have "(2::real) powi k / 2 powi (e - 52) = 2 ^ nat (k - (e - 52))" .
  then have "of_int m * ((2::real) powi k / 2 powi (e - 52)) = of_int m * 2 ^ nat (k - (e - 52))"
    by simp
  then show ?thesis by simp
qed

lemma rnd_exact:
  assumes m: "\<bar>m\<bar> < 2 ^ 53"
  shows "rnd (of_int m * 2 powi k) = of_int m * 2 powi k"
proof (cases "m = 0")
  case True
  then show ?thesis by simp
next
  case False
  define x :: real where "x = of_int m * 2 powi k"
  define e where "e = \<lfloor>log 2 \<bar>x\<bar>\<rfloor>"
  have x0: "x \<noteq> 0" using False by (simp add: x_def)
  have "2 powi e \<le> \<bar>x\<bar>" using log2_binade[OF x0] by (simp add: e_def)
  then have ek: "e - 52 \<le> k" using repr_exponent[OF m] by (simp add: x_def)
  have u: "(2::real) powi (e - 52) \<noteq> 0" by simp
  have "rnd x = of_int (round_even (x / 2 powi (e - 52))) * 2 powi (e - 52)"
    using x0 by (simp add: rnd_def Let_def e_def)
  also have "x / 2 powi (e - 52) = of_int (m * 2 ^ nat (k - (e - 52)))"
    unfolding x_def by (rule repr_scaled[OF ek])
  also have "of_int (round_even (of_int (m * 2 ^ nat (k - (e - 52))))) * (2::real) powi (e - 52)
             = (of_int m * 2 powi k / 2 powi (e - 52)) * 2 powi (e - 52)"
    by (simp only: round_even_of_int repr_scaled[OF ek])
  also have "\<dots> = x" using u by (simp add: x_def)
  finally show ?thesis by (simp add: x_def)
qed

lemma rnd_le_repr:
  assumes m: "\<bar>m\<bar> < 2 ^ 53" and le: "y \<le> of_int m * 2 powi k"
  shows "rnd y \<le> of_int m * 2 powi k"
proof (cases "y = 0")
  case True
  with le show ?thesis by simp
next
  case y0: False
  define z :: real where "z = of_int m * 2 powi k"
  define e where "e = \<lfloor>log 2 \<bar>y\<bar>\<rfloor>"
  define u :: real where "u = 2 powi (e - 52)"
  have u: "0 < u" by (simp add: u_def zero_less_power_int)
  have bin: "2 powi e \<le> \<bar>y\<bar>" using log2_binade[OF y0] by (simp add: e_def)
  have r: "rnd y = of_int (round_even (y / u)) * u"
    using y0 by (simp add: rnd_def Let_def e_def u_def)
  have eu: "2 powi e = 2 ^ 52 * u"
    by (simp add: u_def power_int_diff)
  show ?thesis
  proof (cases "2 powi e \<le> \<bar>z\<bar>")
    case True
    then have ek: "e - 52 \<le> k" using repr_exponent[OF m] by (simp add: z_def)
    have zs: "z / u = of_int (m * 2 ^ nat (k - (e - 52)))"
      unfolding z_def u_def by (rule repr_scaled[OF ek])
    have "y / u \<le> z / u" using le u by (simp add: z_def divide_right_mono)
    then have "round_even (y / u) \<le> m * 2 ^ nat (k - (e - 52))"
      unfolding zs by (rule round_even_le)
    then have "of_int (round_even (y / u)) * u \<le> of_int (m * 2 ^ nat (k - (e - 52))) * u"
      using u by (intro mult_right_mono) (simp_all only: of_int_le_iff less_imp_le)
    also have "\<dots> = z" using zs u by (simp add: field_simps)
    finally show ?thesis by (simp add: r z_def)
  next
    case False
    then have zlt: "\<bar>z\<bar> < 2 powi e" by simp
    have "y \<le> z" using le by (simp add: z_def)
    with zlt bin have yneg: "y \<le> - (2 powi e)" by linarith
    then have "y / u \<le> - (2 ^ 52)"
      using u by (simp add: eu field_simps)
    then have "y / u \<le> of_int (- (2 ^ 52))" by simp
    then have "round_even (y / u) \<le> - (2 ^ 52)" by (rule round_even_le)
    then have "of_int (round_even (y / u)) * u \<le> of_int (- (2 ^ 52)) * u"
      using u by (intro mult_right_mono) (simp_all only: of_int_le_iff less_imp_le)
    also have "\<dots> = - (2 powi e)" by (simp add: eu)
    also have "\<dots> \<le> z" using zlt by linarith
    finally show ?thesis by (simp add: r z_def)
  qed
qed

lemma rnd_ge_repr:
  assumes m: "\<bar>m\<bar> < 2 ^ 53" and le: "of_int m * 2 powi k \<le> y"
  shows "of_int m * 2 powi k \<le> rnd y"
proof -
  have "rnd (- y) \<le> of_int (- m) * 2 powi k"
    using m le by (intro rnd_le_repr) simp_all
  then show ?thesis by (simp add: rnd_minus)
qed

lemma rnd_of_int: "\<bar>m\<bar> < 2 ^ 53 \<Longrightarrow> rnd (of_int m) = of_int m"
  using rnd_exact[of m 0] by simp

lemma rnd_numeral [simp]: "(numeral n :: int) < 2 ^ 53 \<Longrightarrow> rnd (numeral n) = numeral n"
  using rnd_of_int[of "numeral n"] by simp

lemma rnd_neg_numeral [simp]:
  "(numeral n :: int) < 2 ^ 53 \<Longrightarrow> rnd (- numeral n) = - numeral n"
  by (simp add: rnd_minus)

lemma rnd_1 [simp]: "rnd 1 = 1"
  using rnd_of_int[of 1] by simp

lemma rnd_dyadic: "\<bar>m\<bar> < 2 ^ 53 \<Longrightarrow> rnd (of_int m / 2 ^ j) = of_int m / 2 ^ j"
  using rnd_exact[of m "- int j"] by (simp add: power_int_minus field_simps)

lemma rnd_half [simp]: "(numeral n :: int) < 2 ^ 53 \<Longrightarrow> rnd (numeral n / 2) = numeral n / 2"
  using rnd_dyadic[of "numeral n" 1] by simp

lemma rnd_quarter [simp]: "(numeral n :: int) < 2 ^ 53 \<Longrightarrow> rnd (numeral n / 4) = numeral n / 4"
  using rnd_dyadic[of "numeral n" 2] by simp

lemma rnd_one_half [simp]: "rnd (1 / 2) = 1 / 2"
  using rnd_dyadic[of 1 1] by simp

lemma rnd_one_quarter [simp]: "rnd (1 / 4) = 1 / 4"
  using rnd_dyadic[of 1 2] by simp

text \<open>The doubles of the literals \<open>0.01\<close>, \<open>0.99\<close>, \<open>0.07\<close> and \<open>0.87\<close>.\<close>

lemma d001: "rnd (1 / 100) = 5764607523034235 / 2 ^ 59"
  by (subst rnd_eval[where e = "- 7"]) (simp_all add: round_even_def power_int_minus)

lemma d099: "rnd (99 / 100) = 4458563631096791 / 2 ^ 52"
  by (subst rnd_eval[where e = "- 1"]) (simp_all add: round_even_def power_int_minus)

lemma d007: "rnd (7 / 100) = 1261007895663739 / 2 ^ 54"
  by (subst rnd_eval[where e = "- 4"]) (simp_all add: round_even_def power_int_minus)

lemma d087: "rnd (87 / 100) = 7836263351624663 / 2 ^ 53"
  by (subst rnd_eval[where e = "- 1"]) (simp_all add: round_even_def power_int_minus)

text \<open>The default training ratio is the double of \<open>0.8\<close>, a little above \<open>4 / 5\<close>.
  The rounded product with a count below \<open>2 ^ 49\<close> has the floor of the exact
  \<open>4 / 5\<close> of the count.\<close>

lemma default_trainingRatio_value: "default_trainingRatio = 3602879701896397 / 2 ^ 52"
  unfolding default_trainingRatio_def
  by (subst rnd_eval[where e = "- 1"]) (simp_all add: round_even_def power_int_minus)

lemma floor_fmul_default:
  assumes n: "n < 2 ^ 49"
  shows "\<lfloor>fmul (real n) default_trainingRatio\<rfloor> = int ((4 * n) div 5)"
proof -
  define k where "k = int ((4 * n) div 5)"
  define y :: real where "y = real n * (3602879701896397 / 2 ^ 52)"
  have k0: "0 \<le> k" by (simp add: k_def)
  have kn: "5 * k \<le> 4 * int n" "4 * int n \<le> 5 * k + 4"
    unfolding k_def by linarith+
  have nb: "int n < 2 ^ 49" using n by (metis of_nat_less_numeral_power_cancel_iff)
  have kb: "k < 2 ^ 49" using kn nb by linarith
  have "real_of_int (5 * k) \<le> real_of_int (4 * int n)"
    using kn(1) by (simp only: of_int_le_iff)
  then have k1: "5 * real_of_int k \<le> 4 * real n" by simp
  have "real_of_int (4 * int n) \<le> real_of_int (5 * k + 4)"
    using kn(2) by (simp only: of_int_le_iff)
  then have k2: "4 * real n \<le> 5 * real_of_int k + 4" by simp
  have "real_of_int (int n) < real_of_int (2 ^ 49)"
    using nb by (simp only: of_int_less_iff)
  then have nb': "real n < 562949953421312" by simp
  have yeq: "y = 4 * real n / 5 + real n / 22517998136852480"
    unfolding y_def by simp
  have lo: "real_of_int k \<le> y"
    unfolding yeq using k1 by linarith
  have "y \<le> real_of_int k + 7 / 8"
    unfolding yeq using k2 nb' by linarith
  then have hi: "y \<le> real_of_int (8 * k + 7) * 2 powi (- 3)"
    by (simp add: power_int_minus)
  have "real_of_int k * 2 powi 0 \<le> rnd y"
    using k0 kb lo by (intro rnd_ge_repr) simp_all
  moreover have "rnd y \<le> real_of_int (8 * k + 7) * 2 powi (- 3)"
    using k0 kb hi by (intro rnd_le_repr) simp_all
  ultimately have "real_of_int k \<le> rnd y" "rnd y < real_of_int k + 1"
    by (simp_all add: power_int_minus)
  then have "\<lfloor>rnd y\<rfloor> = k" by (simp add: floor_unique)
  then show ?thesis
    by (simp add: fmul_def default_trainingRatio_value y_def k_def)
qed

section \<open>Slices and sorting\<close>



lemma js_slice_0_take: "js_slice 0 (int n) xs = take n xs"
  by (simp add: js_slice_def slice_index_def Let_def min_def)

lemma set_js_slice_from: "set (js_slice_from i xs) \<subseteq> set xs"
  by (simp add: js_slice_from_def set_drop_subset)

lemma mset_insort_by: "mset (insort_by le x xs) = add_mset x (mset xs)"
  by (induction xs) auto

lemma mset_stable_sort: "mset (stable_sort le xs) = mset xs"
  unfolding stable_sort_def by (induction xs) (auto simp: mset_insort_by)

lemma set_stable_sort: "set (stable_sort le xs) = set xs"
  using mset_stable_sort[of le xs] by (metis set_mset_mset)

lemma length_stable_sort: "length (stable_sort le xs) = length xs"
  using mset_stable_sort[of le xs] by (metis size_mset)

lemma stable_sort_Nil_iff: "stable_sort le xs = [] \<longleftrightarrow> xs = []"
  using length_stable_sort[of le xs] by (metis length_0_conv)

lemma set_insort_by: "set (insort_by le x xs) = insert x (set xs)"
  by (induction xs) auto

lemma sorted_insort_by:
  assumes tot: "\<And>a b. le a b \<or> le b a" and tr: "\<And>a b c. le a b \<Longrightarrow> le b c \<Longrightarrow> le a c"
  shows "sorted_wrt le xs \<Longrightarrow> sorted_wrt le (insort_by le x xs)"
proof (induction xs)
  case Nil
  then show ?case by simp
next
  case (Cons y ys)
  show ?case
  proof (cases "le x y")
    case True
    then have "\<forall>z\<in>set ys. le x z" using Cons.prems tr by auto
    with True Cons.prems show ?thesis by simp
  next
    case False
    then have "le y x" using tot by blast
    with False Cons show ?thesis by (auto simp: set_insort_by)
  qed
qed

lemma sorted_stable_sort:
  assumes tot: "\<And>a b. le a b \<or> le b a" and tr: "\<And>a b c. le a b \<Longrightarrow> le b c \<Longrightarrow> le a c"
  shows "sorted_wrt le (stable_sort le xs)"
  unfolding stable_sort_def
  by (induction xs) (auto intro: sorted_insort_by[OF tot tr])





section \<open>The chronological split\<close>








lemma split_index_single_default: "split_index [m] default_trainingRatio = 0"
proof (cases "resolvedOutcome m = None")
  case True
  then show ?thesis
    by (simp add: split_index_def sorted_markets_def resolved_markets_def stable_sort_def fmul_def)
next
  case False
  then have "split_index [m] default_trainingRatio =
      \<lfloor>fmul (real (1::nat)) default_trainingRatio\<rfloor>"
    by (simp add: split_index_def sorted_markets_def resolved_markets_def stable_sort_def)
  also have "\<dots> = int ((4 * 1) div 5)" by (rule floor_fmul_default) simp
  finally show ?thesis by simp
qed

lemma test_markets_single_default:
  "resolvedOutcome m \<noteq> None \<Longrightarrow> test_markets [m] default_trainingRatio = [m]"
  by (simp add: test_markets_def split_index_single_default sorted_markets_def resolved_markets_def
      stable_sort_def js_slice_from_def slice_index_def)

lemma test_markets_yes: "test_markets [market_yes] default_trainingRatio = [market_yes]"
  by (rule test_markets_single_default) (simp add: market_yes_def)

lemma test_markets_resolved:
  assumes "m \<in> set (test_markets markets r)"
  shows "m \<in> set markets \<and> resolvedOutcome m \<noteq> None"
proof -
  from assms have "m \<in> set (sorted_markets markets)"
    using set_js_slice_from by (fastforce simp: test_markets_def)
  then show ?thesis
    by (simp add: sorted_markets_def set_stable_sort resolved_markets_def)
qed



section \<open>The loop over the proposed bets\<close>

lemma lower_Yes: "toLowerCase ''Yes'' = ''yes''"
  by code_simp


lemma simulate_bet_unresolvable:
  "unresolvable tms bet \<Longrightarrow> simulate_bet sid tms st bet = Inr st"
  by (auto simp: unresolvable_def simulate_bet_def truthy_def split: option.splits)

lemma simulate_filter:
  "simulate sid tms (filter (\<lambda>b. \<not> unresolvable tms b) bs) st = simulate sid tms bs st"
  by (induction bs arbitrary: st) (auto simp: simulate_bet_unresolvable split: sum.splits)

lemma simulate_bet_cases:
  assumes "simulate_bet sid tms st bet = Inr st'"
  shows "st' = st \<or>
         (\<exists>market resolved w.
            find_market tms (b_marketId bet) = Some market \<and>
            resolvedOutcome market = Some resolved \<and> resolved \<noteq> [] \<and>
            isBetWinner bet resolved = Inr w \<and>
            st' = \<lparr>backtestBets = backtestBets st @ [score_bet bet w],
                    cumulative = fadd (cumulative st)
                                   (fsub (payout (score_bet bet w)) (cost (score_bet bet w))),
                    earnings = earnings st @
                      [\<lparr>ep_timestamp = b_timestamp bet,
                        cumulativeEarnings = fadd (cumulative st)
                                   (fsub (payout (score_bet bet w)) (cost (score_bet bet w))),
                        ep_strategyId = sid\<rparr>]\<rparr>)"
  using assms
  by (auto simp: simulate_bet_def truthy_def Let_def split: option.splits if_splits sum.splits)

lemma simulate_invariant:
  assumes "simulate sid tms bs st = Inr st'" and "I st"
    and step: "\<And>s bet s'. I s \<Longrightarrow> simulate_bet sid tms s bet = Inr s' \<Longrightarrow> I s'"
  shows "I st'"
  using assms(1,2)
proof (induction bs arbitrary: st)
  case Nil
  then show ?case by simp
next
  case (Cons bet rest)
  then show ?case by (auto split: sum.splits intro: step)
qed

lemma backtest_Inr:
  assumes "backtest now strategy markets trainingRatio = Inr res"
  obtains proposed st where
    "generateBets strategy now (prepared_test_markets markets trainingRatio)
       (backtest_context markets trainingRatio) = Inr proposed"
    "simulate (strategy_id strategy) (test_markets markets trainingRatio) proposed initial_state = Inr st"
    "res = metrics strategy st"
  using assms by (auto simp: backtest_def split: sum.splits)

lemma bets_metrics: "bets (metrics strategy st) = backtestBets st"
  by (simp add: metrics_def Let_def)

lemma metrics_fields:
  "totalBets (metrics s st) = length (backtestBets st)"
  "wins (metrics s st) = length (filter (\<lambda>b. result b = Win) (backtestBets st))"
  "losses (metrics s st) = length (filter (\<lambda>b. result b = Loss) (backtestBets st))"
  "earningsOverTime (metrics s st) = earnings st"
  "totalCost (metrics s st) = foldl (\<lambda>sum b. fadd sum (cost b)) 0 (backtestBets st)"
  "totalWinnings (metrics s st) = foldl (\<lambda>sum b. fadd sum (payout b)) 0 (backtestBets st)"
  "netProfit (metrics s st) = fsub (totalWinnings (metrics s st)) (totalCost (metrics s st))"
  by (simp_all add: metrics_def Let_def)

lemma score_bet_settled:
  assumes "find_market tms (b_marketId bet) = Some market"
    and "resolvedOutcome market = Some resolved"
    and "isBetWinner bet resolved = Inr w"
  shows "settled_by_rule tms (score_bet bet w)"
  using assms
  by (cases "b_side bet")
     (auto simp: settled_by_rule_def spec_win_def score_bet_def isBetWinner_def
           split: option.splits if_splits)

lemma simulate_settled:
  assumes "simulate sid tms bs st = Inr st'"
    and "\<forall>bb\<in>set (backtestBets st). settled_by_rule tms bb"
  shows "\<forall>bb\<in>set (backtestBets st'). settled_by_rule tms bb"
proof (rule simulate_invariant[OF assms(1),
        where I = "\<lambda>s. \<forall>bb\<in>set (backtestBets s). settled_by_rule tms bb"])
  show "\<forall>bb\<in>set (backtestBets st). settled_by_rule tms bb" by (rule assms(2))
next
  fix s bet s'
  assume I: "\<forall>bb\<in>set (backtestBets s). settled_by_rule tms bb"
    and st: "simulate_bet sid tms s bet = Inr s'"
  from simulate_bet_cases[OF st] I
  show "\<forall>bb\<in>set (backtestBets s'). settled_by_rule tms bb"
    by (auto intro: score_bet_settled)
qed

text \<open>A run with one bet: a buy of 100 shares of Yes at 0.5 on a market resolved to Yes.\<close>

lemma example_run:
  "backtest 0 (fixed_strategy [bet_on ''m1'' Buy 100 (1 / 2)]) [market_yes] default_trainingRatio =
   Inr (metrics (fixed_strategy [bet_on ''m1'' Buy 100 (1 / 2)])
     \<lparr>backtestBets = [score_bet (bet_on ''m1'' Buy 100 (1 / 2)) True],
      cumulative = 50,
      earnings = [\<lparr>ep_timestamp = 0, cumulativeEarnings = 50, ep_strategyId = ''fixed''\<rparr>]\<rparr>)"
  apply (simp add: backtest_def fixed_strategy_def test_markets_yes)
  apply (simp add: simulate_bet_def find_market_def bet_on_def truthy_def isBetWinner_def
       lower_Yes initial_state_def score_bet_def fadd_def fsub_def fmul_def market_yes_def)
  done



section \<open>C1: the settlement rule\<close>




section \<open>C2: the chronological split\<close>




section \<open>C3: the snapshot\<close>

text \<open>
  Claim C3. The snapshot of a market is the market with \<open>active\<close> set, the resolved
  outcome removed, and the price points and the trades sorted by timestamp, ascending;
  every price point and every trade of the market is in the snapshot, none is cut off.
  All other fields are those of the market. The strategy is given the snapshots of the
  test markets, while the bets are scored against the test markets themselves, each of
  which is a market of the input and has its resolved outcome. (The model compares
  values; which objects the snapshot shares with the market is outside it.)
\<close>

theorem C3_snapshot:
  "active (prepareMarketSnapshot m)
   \<and> resolvedOutcome (prepareMarketSnapshot m) = None
   \<and> sorted_wrt (\<lambda>a b. pp_timestamp a \<le> pp_timestamp b)
        (historicalPrices (prepareMarketSnapshot m))
   \<and> mset (historicalPrices (prepareMarketSnapshot m)) = mset (historicalPrices m)
   \<and> sorted_wrt (\<lambda>a b. tr_timestamp a \<le> tr_timestamp b) (trades (prepareMarketSnapshot m))
   \<and> mset (trades (prepareMarketSnapshot m)) = mset (trades m)
   \<and> prepareMarketSnapshot m =
        m\<lparr>active := True, resolvedOutcome := None,
          historicalPrices := historicalPrices (prepareMarketSnapshot m),
          trades := trades (prepareMarketSnapshot m)\<rparr>
   \<and> backtest now strategy markets r =
       (case generateBets strategy now (map prepareMarketSnapshot (test_markets markets r))
               (backtest_context markets r) of
          Inl e \<Rightarrow> Inl e
        | Inr proposed \<Rightarrow>
            (case simulate (strategy_id strategy) (test_markets markets r) proposed
                    initial_state of
               Inl e \<Rightarrow> Inl e
             | Inr st \<Rightarrow> Inr (metrics strategy st)))
   \<and> evaluationMarkets (backtest_context markets r) = Some (test_markets markets r)
   \<and> (\<forall>t\<in>set (test_markets markets r). t \<in> set markets \<and> resolvedOutcome t \<noteq> None)"
proof -
  have hp: "sorted_wrt (\<lambda>a b. pp_timestamp a \<le> pp_timestamp b)
        (historicalPrices (prepareMarketSnapshot m))"
  proof -
    have "sorted_wrt by_timestamp_pp (stable_sort by_timestamp_pp (historicalPrices m))"
      by (rule sorted_stable_sort) (auto simp: by_timestamp_pp_def)
    then show ?thesis by (simp add: prepareMarketSnapshot_def by_timestamp_pp_def[abs_def])
  qed
  have tr: "sorted_wrt (\<lambda>a b. tr_timestamp a \<le> tr_timestamp b) (trades (prepareMarketSnapshot m))"
  proof -
    have "sorted_wrt by_timestamp_tr (stable_sort by_timestamp_tr (trades m))"
      by (rule sorted_stable_sort) (auto simp: by_timestamp_tr_def)
    then show ?thesis by (simp add: prepareMarketSnapshot_def by_timestamp_tr_def[abs_def])
  qed
  have rest: "active (prepareMarketSnapshot m)"
    "resolvedOutcome (prepareMarketSnapshot m) = None"
    "mset (historicalPrices (prepareMarketSnapshot m)) = mset (historicalPrices m)"
    "mset (trades (prepareMarketSnapshot m)) = mset (trades m)"
    "prepareMarketSnapshot m =
        m\<lparr>active := True, resolvedOutcome := None,
          historicalPrices := historicalPrices (prepareMarketSnapshot m),
          trades := trades (prepareMarketSnapshot m)\<rparr>"
    by (simp_all add: prepareMarketSnapshot_def mset_stable_sort)
  have bt: "backtest now strategy markets r =
       (case generateBets strategy now (map prepareMarketSnapshot (test_markets markets r))
               (backtest_context markets r) of
          Inl e \<Rightarrow> Inl e
        | Inr proposed \<Rightarrow>
            (case simulate (strategy_id strategy) (test_markets markets r) proposed
                    initial_state of
               Inl e \<Rightarrow> Inl e
             | Inr st \<Rightarrow> Inr (metrics strategy st)))"
    by (simp add: backtest_def prepared_test_markets_def)
  have ev: "evaluationMarkets (backtest_context markets r) = Some (test_markets markets r)"
    by (simp add: backtest_context_def)
  show ?thesis
    using hp tr rest bt ev test_markets_resolved by blast
qed

theorem C3_snapshot_witness:
  "map pp_timestamp (historicalPrices market_unsorted) = [900, 100]
   \<and> map pp_timestamp (historicalPrices (prepareMarketSnapshot market_unsorted)) = [100, 900]
   \<and> resolvedOutcome (prepareMarketSnapshot market_unsorted) = None
   \<and> test_markets [market_unsorted] default_trainingRatio = [market_unsorted]
   \<and> resolvedOutcome market_unsorted = Some ''Yes''"
proof -
  have tm: "test_markets [market_unsorted] default_trainingRatio = [market_unsorted]"
    by (rule test_markets_single_default) (simp add: market_unsorted_def market_yes_def)
  from C3_snapshot[of market_unsorted 0 "fixed_strategy []" "[market_unsorted]" default_trainingRatio]
    tm
  show ?thesis
    by (simp add: market_unsorted_def market_yes_def prepareMarketSnapshot_def stable_sort_def
        by_timestamp_pp_def)
qed



section \<open>C4: the guarded ratios\<close>










section \<open>C5: determinism\<close>

lemma whale_run:
  "map_sum id (\<lambda>r. map ep_timestamp (earningsOverTime r))
     (backtest now (copyTradingStrategy COPY_TRADING_DEFAULTS) [market_whale] default_trainingRatio)
   = Inr [now]" if "now = 1000 \<or> now = 2000"
proof -
  have tm: "test_markets [market_whale] default_trainingRatio = [market_whale]"
    by (rule test_markets_single_default) (simp add: market_whale_def market_yes_def)
  have bets: "generateBets (copyTradingStrategy COPY_TRADING_DEFAULTS) now
                 (prepared_test_markets [market_whale] default_trainingRatio)
                 (backtest_context [market_whale] default_trainingRatio)
              = Inr [\<lparr>b_marketId = ''m1'', b_outcome = Some ''Yes'', b_side = Buy, b_amount = 100,
                     b_priceLimit = clampPrice (fadd (1 / 2) (rnd (2 / 100))),
                     b_reason = WhaleReason 5000 (1 / 2), b_timestamp = now\<rparr>]"
    using that
    apply (simp add: copyTradingStrategy_def prepared_test_markets_def tm backtest_context_def
        resolveMode_def)
    apply (simp add: copyTrading_market_def isMarketEligible_def prepareMarketSnapshot_def
        market_whale_def market_yes_def COPY_TRADING_DEFAULTS_def determineDecisionTime_def
        stable_sort_def Let_def js_slice_def slice_index_def)
    apply (auto simp: fquot_def fsub_def)
    done
  show ?thesis
    apply (simp add: backtest_def bets tm)
    apply (simp add: simulate_bet_def find_market_def truthy_def isBetWinner_def
       lower_Yes initial_state_def score_bet_def market_whale_def market_yes_def Let_def
       metrics_fields copyTradingStrategy_def)
    done
qed

text \<open>
  Claim C5, as stated, fails. The market \<open>market_whale\<close> is resolved and has neither
  price points nor dates, so its decision time in a backtest is the wall-clock time. The
  whale-copy strategy with the default parameters copies its trade, and the bet and the
  earnings point carry the time of the run: two runs on the same markets, one second
  apart, return different results.
\<close>

theorem C5_counterexample:
  "backtest 1000 (copyTradingStrategy COPY_TRADING_DEFAULTS) [market_whale] default_trainingRatio
   \<noteq> backtest 2000 (copyTradingStrategy COPY_TRADING_DEFAULTS) [market_whale] default_trainingRatio
   \<and> map_sum id (\<lambda>r. map ep_timestamp (earningsOverTime r))
        (backtest 1000 (copyTradingStrategy COPY_TRADING_DEFAULTS) [market_whale]
           default_trainingRatio) = Inr [1000]
   \<and> map_sum id (\<lambda>r. map ep_timestamp (earningsOverTime r))
        (backtest 2000 (copyTradingStrategy COPY_TRADING_DEFAULTS) [market_whale]
           default_trainingRatio) = Inr [2000]"
proof -
  have a: "map_sum id (\<lambda>r. map ep_timestamp (earningsOverTime r))
        (backtest 1000 (copyTradingStrategy COPY_TRADING_DEFAULTS) [market_whale]
           default_trainingRatio) = Inr [1000]"
    by (rule whale_run) simp
  have b: "map_sum id (\<lambda>r. map ep_timestamp (earningsOverTime r))
        (backtest 2000 (copyTradingStrategy COPY_TRADING_DEFAULTS) [market_whale]
           default_trainingRatio) = Inr [2000]"
    by (rule whale_run) simp
  from a b have "backtest 1000 (copyTradingStrategy COPY_TRADING_DEFAULTS) [market_whale]
       default_trainingRatio
   \<noteq> backtest 2000 (copyTradingStrategy COPY_TRADING_DEFAULTS) [market_whale]
       default_trainingRatio"
    by auto
  with a b show ?thesis by simp
qed

lemma decision_time_snapshot:
  assumes "has_decision_source m"
  shows "determineDecisionTime now (prepareMarketSnapshot m) Backtest =
         determineDecisionTime now' (prepareMarketSnapshot m) Backtest"
  using assms
  by (auto simp: has_decision_source_def determineDecisionTime_def prepareMarketSnapshot_def
      stable_sort_Nil_iff length_stable_sort split: option.splits)

lemma copyTrading_market_clock:
  "determineDecisionTime now m md = determineDecisionTime now' m md \<Longrightarrow>
   copyTrading_market params now md m = copyTrading_market params now' md m"
  by (simp add: copyTrading_market_def)

lemma spikeDetection_market_clock:
  "determineDecisionTime now m md = determineDecisionTime now' m md \<Longrightarrow>
   spikeDetection_market now md m = spikeDetection_market now' md m"
  by (simp add: spikeDetection_market_def)

lemma marketMaking_market_clock:
  "determineDecisionTime now m md = determineDecisionTime now' m md \<Longrightarrow>
   marketMaking_market now md m = marketMaking_market now' md m"
  by (simp add: marketMaking_market_def)

lemma resolveMode_backtest_context [simp]: "resolveMode (backtest_context markets r) = Backtest"
  by (simp add: resolveMode_def backtest_context_def)

lemma backtest_clock:
  assumes "generateBets strategy now (prepared_test_markets markets r) (backtest_context markets r)
         = generateBets strategy now' (prepared_test_markets markets r) (backtest_context markets r)"
  shows "backtest now strategy markets r = backtest now' strategy markets r"
  using assms by (simp add: backtest_def)

lemma reference_generateBets_clock:
  assumes src: "\<forall>m\<in>set markets. resolvedOutcome m \<noteq> None \<longrightarrow> has_decision_source m"
    and s: "strategy \<in> set (reference_strategies params)"
  shows "generateBets strategy now (prepared_test_markets markets r) (backtest_context markets r)
       = generateBets strategy now' (prepared_test_markets markets r) (backtest_context markets r)"
proof -
  have dt: "determineDecisionTime now pm Backtest = determineDecisionTime now' pm Backtest"
    if "pm \<in> set (prepared_test_markets markets r)" for pm
  proof -
    from that obtain m where m: "m \<in> set (test_markets markets r)" "pm = prepareMarketSnapshot m"
      by (auto simp: prepared_test_markets_def)
    from test_markets_resolved[OF m(1)] src have "has_decision_source m" by blast
    then show ?thesis unfolding m(2) by (rule decision_time_snapshot)
  qed
  have a: "map (copyTrading_market params now Backtest) (prepared_test_markets markets r)
         = map (copyTrading_market params now' Backtest) (prepared_test_markets markets r)"
    by (rule map_cong[OF refl]) (rule copyTrading_market_clock[OF dt])
  have b: "map (spikeDetection_market now Backtest) (prepared_test_markets markets r)
         = map (spikeDetection_market now' Backtest) (prepared_test_markets markets r)"
    by (rule map_cong[OF refl]) (rule spikeDetection_market_clock[OF dt])
  have c: "map (marketMaking_market now Backtest) (prepared_test_markets markets r)
         = map (marketMaking_market now' Backtest) (prepared_test_markets markets r)"
    by (rule map_cong[OF refl]) (rule marketMaking_market_clock[OF dt])
  from s consider "strategy = copyTradingStrategy params" | "strategy = spikeDetectionStrategy"
    | "strategy = marketMakingStrategy" | "strategy = aiGeneratedStrategy"
    by (auto simp: reference_strategies_def)
  then show ?thesis
  proof cases
    case 1
    then show ?thesis by (simp add: copyTradingStrategy_def a)
  next
    case 2
    then show ?thesis by (simp add: spikeDetectionStrategy_def b)
  next
    case 3
    then show ?thesis by (simp add: marketMakingStrategy_def c)
  next
    case 4
    then show ?thesis by (simp add: aiGeneratedStrategy_def)
  qed
qed

lemma market_priced_source: "has_decision_source market_priced"
  by (simp add: has_decision_source_def market_priced_def)

text \<open>
  Claim C5, amended. The engine itself reads no clock and keeps no state: two runs on
  the same markets with the same training ratio return the same result whenever the
  strategy proposes the same bets in both. The reference strategies do so, at whatever
  times the two runs take place, when every resolved market has a price point, an end
  date or a resolution date.
\<close>

theorem C5_determinism:
  "(generateBets strategy now (prepared_test_markets markets r) (backtest_context markets r)
      = generateBets strategy now' (prepared_test_markets markets r) (backtest_context markets r)
    \<longrightarrow> backtest now strategy markets r = backtest now' strategy markets r)
   \<and> ((\<forall>m\<in>set markets. resolvedOutcome m \<noteq> None \<longrightarrow> has_decision_source m)
        \<and> strategy \<in> set (reference_strategies params)
      \<longrightarrow> backtest now strategy markets r = backtest now' strategy markets r)"
  using backtest_clock reference_generateBets_clock by blast

theorem C5_determinism_witness:
  "has_decision_source market_priced
   \<and> marketMakingStrategy \<in> set (reference_strategies COPY_TRADING_DEFAULTS)
   \<and> generateBets marketMakingStrategy 1000
        (prepared_test_markets [market_priced] default_trainingRatio)
        (backtest_context [market_priced] default_trainingRatio)
     = generateBets marketMakingStrategy 2000
        (prepared_test_markets [market_priced] default_trainingRatio)
        (backtest_context [market_priced] default_trainingRatio)
   \<and> backtest 1000 marketMakingStrategy [market_priced] default_trainingRatio
     = backtest 2000 marketMakingStrategy [market_priced] default_trainingRatio"
proof -
  have s: "marketMakingStrategy \<in> set (reference_strategies COPY_TRADING_DEFAULTS)"
    by (simp add: reference_strategies_def)
  have src: "\<forall>m\<in>set [market_priced]. resolvedOutcome m \<noteq> None \<longrightarrow> has_decision_source m"
    by (simp add: market_priced_source)
  have g: "generateBets marketMakingStrategy 1000
        (prepared_test_markets [market_priced] default_trainingRatio)
        (backtest_context [market_priced] default_trainingRatio)
     = generateBets marketMakingStrategy 2000
        (prepared_test_markets [market_priced] default_trainingRatio)
        (backtest_context [market_priced] default_trainingRatio)"
    by (rule reference_generateBets_clock[OF src s])
  from C5_determinism[of marketMakingStrategy 1000 "[market_priced]" default_trainingRatio 2000
      COPY_TRADING_DEFAULTS] g s src market_priced_source
  show ?thesis by blast
qed



section \<open>C6: bets that cannot be scored\<close>

text \<open>
  Claim C6. A proposed bet whose \<open>marketId\<close> is that of no test market, or of a test
  market without resolved outcome, is dropped: the run returns what it returns for the
  proposed bets without these bets, be it a result or an error of another bet, and no bet
  of the result is such a bet.
\<close>

theorem C6_discard:
  assumes "generateBets strategy now (prepared_test_markets markets trainingRatio)
             (backtest_context markets trainingRatio) = Inr proposed"
  shows "backtest now strategy markets trainingRatio =
           (case simulate (strategy_id strategy) (test_markets markets trainingRatio)
                   (filter (\<lambda>b. \<not> unresolvable (test_markets markets trainingRatio) b) proposed)
                   initial_state of
              Inl e \<Rightarrow> Inl e
            | Inr st \<Rightarrow> Inr (metrics strategy st))
       \<and> (case backtest now strategy markets trainingRatio of
              Inl e \<Rightarrow> True
            | Inr res \<Rightarrow>
                filter (unresolvable (test_markets markets trainingRatio)) (bets res) = [])"
proof -
  have a: "backtest now strategy markets trainingRatio =
           (case simulate (strategy_id strategy) (test_markets markets trainingRatio)
                   (filter (\<lambda>b. \<not> unresolvable (test_markets markets trainingRatio) b) proposed)
                   initial_state of
              Inl e \<Rightarrow> Inl e
            | Inr st \<Rightarrow> Inr (metrics strategy st))"
    by (simp add: backtest_def assms simulate_filter)
  have b: "filter (unresolvable (test_markets markets trainingRatio)) (bets res) = []"
    if r: "backtest now strategy markets trainingRatio = Inr res" for res
  proof -
    from r obtain proposed' st where
      sim: "simulate (strategy_id strategy) (test_markets markets trainingRatio) proposed'
            initial_state = Inr st"
      and res: "res = metrics strategy st"
      by (rule backtest_Inr)
    have "\<forall>bb\<in>set (backtestBets st). settled_by_rule (test_markets markets trainingRatio) bb"
      by (rule simulate_settled[OF sim]) (simp add: initial_state_def)
    then have "\<forall>bb\<in>set (bets res). \<not> unresolvable (test_markets markets trainingRatio) bb"
      by (auto simp: res bets_metrics settled_by_rule_def unresolvable_def)
    then show ?thesis by (simp add: filter_empty_conv)
  qed
  show ?thesis using a b by (auto split: sum.splits)
qed

theorem C6_discard_witness:
  "generateBets (fixed_strategy [bet_on ''m2'' Buy 100 (1 / 2), bet_on ''m1'' Buy 100 (1 / 2)]) 0
     (prepared_test_markets [market_yes] default_trainingRatio)
     (backtest_context [market_yes] default_trainingRatio)
     = Inr [bet_on ''m2'' Buy 100 (1 / 2), bet_on ''m1'' Buy 100 (1 / 2)]
   \<and> unresolvable (test_markets [market_yes] default_trainingRatio) (bet_on ''m2'' Buy 100 (1 / 2))
   \<and> map_sum id (\<lambda>r. (map b_marketId (bets r), totalBets r, wins r, losses r, totalCost r,
                       totalWinnings r, map cumulativeEarnings (earningsOverTime r)))
       (backtest 0 (fixed_strategy [bet_on ''m2'' Buy 100 (1 / 2), bet_on ''m1'' Buy 100 (1 / 2)])
          [market_yes] default_trainingRatio)
     = Inr ([''m1''], 1, 1, 0, 50, 100, [50])"
proof -
  have g: "generateBets
       (fixed_strategy [bet_on ''m2'' Buy 100 (1 / 2), bet_on ''m1'' Buy 100 (1 / 2)]) 0
     (prepared_test_markets [market_yes] default_trainingRatio)
     (backtest_context [market_yes] default_trainingRatio)
     = Inr [bet_on ''m2'' Buy 100 (1 / 2), bet_on ''m1'' Buy 100 (1 / 2)]"
    by (simp add: fixed_strategy_def)
  have u: "unresolvable (test_markets [market_yes] default_trainingRatio)
       (bet_on ''m2'' Buy 100 (1 / 2))"
    "\<not> unresolvable (test_markets [market_yes] default_trainingRatio)
       (bet_on ''m1'' Buy 100 (1 / 2))"
    by (simp_all add: unresolvable_def test_markets_yes find_market_def bet_on_def)
       (simp_all add: market_yes_def)
  have "backtest 0 (fixed_strategy [bet_on ''m2'' Buy 100 (1 / 2), bet_on ''m1'' Buy 100 (1 / 2)])
          [market_yes] default_trainingRatio =
        (case simulate ''fixed'' [market_yes] [bet_on ''m1'' Buy 100 (1 / 2)] initial_state of
           Inl e \<Rightarrow> Inl e
         | Inr st \<Rightarrow> Inr (metrics
             (fixed_strategy [bet_on ''m2'' Buy 100 (1 / 2), bet_on ''m1'' Buy 100 (1 / 2)]) st))"
    using C6_discard[OF g] u by (simp add: test_markets_yes fixed_strategy_def)
  then have "map_sum id (\<lambda>r. (map b_marketId (bets r), totalBets r, wins r, losses r, totalCost r,
                       totalWinnings r, map cumulativeEarnings (earningsOverTime r)))
       (backtest 0 (fixed_strategy [bet_on ''m2'' Buy 100 (1 / 2), bet_on ''m1'' Buy 100 (1 / 2)])
          [market_yes] default_trainingRatio)
     = Inr ([''m1''], 1, 1, 0, 50, 100, [50])"
    by (simp add: simulate_bet_def find_market_def bet_on_def truthy_def isBetWinner_def
       lower_Yes initial_state_def score_bet_def fadd_def fsub_def fmul_def market_yes_def
       metrics_fields bets_metrics)
  with g u show ?thesis by simp
qed


section \<open>C7: the price clamp\<close>

lemma clampPrice_bounds:
  "rnd (1 / 100) \<le> clampPrice p \<and> clampPrice p \<le> rnd (99 / 100)
   \<and> 1 / 100 \<le> clampPrice p \<and> clampPrice p \<le> 99 / 100"
  by (simp add: clampPrice_def d001 d099 max_def min_def)

lemma copyTrading_clamped:
  "b \<in> set (copyTrading_market params now md market) \<Longrightarrow> \<exists>p. b_priceLimit b = clampPrice p"
  by (auto simp: copyTrading_market_def Let_def split: if_splits)

lemma spikeDetection_clamped:
  "b \<in> set (spikeDetection_market now md market) \<Longrightarrow> \<exists>p. b_priceLimit b = clampPrice p"
  by (auto simp: spikeDetection_market_def Let_def split: if_splits list.splits)

lemma marketMaking_clamped:
  "b \<in> set (marketMaking_market now md market) \<Longrightarrow> \<exists>p. b_priceLimit b = clampPrice p"
  by (auto simp: marketMaking_market_def Let_def split: if_splits)

text \<open>
  The scenarios of the specification, in double arithmetic: the whale-copy strategy bids
  0.62 for the trade at 0.60; the spike-reversal strategy sells at 0.57 after the rise
  from 0.50 to 0.60; the market-making strategy, around the only price 0.50, bids 0.47
  and asks 0.53.
\<close>

lemma d060: "rnd (3 / 5) = 5404319552844595 / 2 ^ 53"
  by (subst rnd_eval[where e = "- 1"]) (simp_all add: round_even_def power_int_minus)

lemma d002: "rnd (1 / 50) = 5764607523034235 / 2 ^ 58"
  by (subst rnd_eval[where e = "- 6"]) (simp_all add: round_even_def power_int_minus)

lemma d062: "rnd (31 / 50) = 5584463537939415 / 2 ^ 53"
  by (subst rnd_eval[where e = "- 1"]) (simp_all add: round_even_def power_int_minus)

lemma d003: "rnd (3 / 100) = 1080863910568919 / 2 ^ 55"
  by (subst rnd_eval[where e = "- 6"]) (simp_all add: round_even_def power_int_minus)

lemma d008: "rnd (2 / 25) = 5764607523034235 / 2 ^ 56"
  by (subst rnd_eval[where e = "- 4"]) (simp_all add: round_even_def power_int_minus)

lemma d005: "rnd (1 / 20) = 3602879701896397 / 2 ^ 56"
  by (subst rnd_eval[where e = "- 5"]) (simp_all add: round_even_def power_int_minus)

lemma d057: "rnd (57 / 100) = 5134103575202365 / 2 ^ 53"
  by (subst rnd_eval[where e = "- 1"]) (simp_all add: round_even_def power_int_minus)

lemma d047: "rnd (47 / 100) = 2116691824864133 / 2 ^ 52"
  by (subst rnd_eval[where e = "- 2"]) (simp_all add: round_even_def power_int_minus)

lemma d053: "rnd (53 / 100) = 2386907802506363 / 2 ^ 52"
  by (subst rnd_eval[where e = "- 1"]) (simp_all add: round_even_def power_int_minus)

lemma clamp_062: "clampPrice (fadd (rnd (3 / 5)) (rnd (1 / 50))) = rnd (31 / 50)"
proof -
  have "fadd (rnd (3 / 5)) (rnd (1 / 50)) = 5584463537939415 / 2 ^ 53"
    unfolding fadd_def d060 d002
    by (subst rnd_eval[where e = "- 1"]) (simp_all add: round_even_def power_int_minus)
  then show ?thesis
    by (simp add: clampPrice_def d001 d099 d062)
qed

lemma whale_scenario:
  "copyTrading_market COPY_TRADING_DEFAULTS now Backtest scenario_whale =
     [\<lparr>b_marketId = ''m1'', b_outcome = Some ''Yes'', b_side = Buy, b_amount = 100,
       b_priceLimit = rnd (31 / 50),
       b_reason = WhaleReason 5000 (rnd (3 / 5)), b_timestamp = 3600000\<rparr>]"
  by (simp add: copyTrading_market_def isMarketEligible_def scenario_whale_def market_yes_def
      COPY_TRADING_DEFAULTS_def determineDecisionTime_def stable_sort_def Let_def js_slice_def
      slice_index_def fquot_def fsub_def clamp_062)

lemma mm_bid: "clampPrice (fsub (1 / 2) (fquot (max minSpread (min maxSpread (fmul (rnd (3 / 100)) 2))) 2))
     = rnd (47 / 100)"
proof -
  have a: "fmul (rnd (3 / 100)) 2 = 1080863910568919 / 2 ^ 54"
    using rnd_dyadic[of 1080863910568919 54] by (simp add: fmul_def d003)
  have b: "max minSpread (min maxSpread (1080863910568919 / 2 ^ 54)) = 1080863910568919 / 2 ^ 54"
    by (simp add: minSpread_def maxSpread_def d002 d008)
  have c: "fquot (1080863910568919 / 2 ^ 54) 2 = 1080863910568919 / 2 ^ 55"
    using rnd_dyadic[of 1080863910568919 55] by (simp add: fquot_def)
  have d: "fsub (1 / 2) (1080863910568919 / 2 ^ 55) = 2116691824864133 / 2 ^ 52"
    unfolding fsub_def
    by (subst rnd_eval[where e = "- 2"]) (simp_all add: round_even_def power_int_minus)
  have e: "clampPrice (2116691824864133 / 2 ^ 52) = 2116691824864133 / 2 ^ 52"
    by (simp add: clampPrice_def d001 d099)
  show ?thesis
    by (simp only: a b c d e d047)
qed

lemma mm_ask: "clampPrice (fadd (1 / 2) (fquot (max minSpread (min maxSpread (fmul (rnd (3 / 100)) 2))) 2))
     = rnd (53 / 100)"
proof -
  have a: "fmul (rnd (3 / 100)) 2 = 1080863910568919 / 2 ^ 54"
    using rnd_dyadic[of 1080863910568919 54] by (simp add: fmul_def d003)
  have b: "max minSpread (min maxSpread (1080863910568919 / 2 ^ 54)) = 1080863910568919 / 2 ^ 54"
    by (simp add: minSpread_def maxSpread_def d002 d008)
  have c: "fquot (1080863910568919 / 2 ^ 54) 2 = 1080863910568919 / 2 ^ 55"
    using rnd_dyadic[of 1080863910568919 55] by (simp add: fquot_def)
  have d: "fadd (1 / 2) (1080863910568919 / 2 ^ 55) = 2386907802506363 / 2 ^ 52"
    unfolding fadd_def
    by (subst rnd_eval[where e = "- 1"]) (simp_all add: round_even_def power_int_minus)
  have e: "clampPrice (2386907802506363 / 2 ^ 52) = 2386907802506363 / 2 ^ 52"
    by (simp add: clampPrice_def d001 d099)
  show ?thesis
    by (simp only: a b c d e d053)
qed

lemma mm_scenario:
  "map (\<lambda>b. (b_side b, b_amount b, b_priceLimit b)) (marketMaking_market now Backtest market_priced)
   = [(Buy, 100, rnd (47 / 100)), (Sell, 100, rnd (53 / 100))]"
  by (simp add: marketMaking_market_def isMarketEligible_def market_priced_def market_yes_def
      minLiquidity_def Let_def js_slice_from_def slice_index_def betSizePerSide_def mm_bid mm_ask)

lemma spike_mean:
  "mean_ne (1 / 2)
     [1 / 2, 1 / 2, 1 / 2, 1 / 2, 1 / 2, 1 / 2, 1 / 2, 1 / 2, 1 / 2, 1 / 2, 1 / 2,
      1 / 2, 1 / 2, 1 / 2, 1 / 2, 1 / 2, 1 / 2, 1 / 2, 1 / 2, 1 / 2, 1 / 2, 1 / 2, rnd (3 / 5)]
   = 2270564812132625 / 2 ^ 52"
proof -
  have s: "fadd (23 / 2) (5404319552844595 / 2 ^ 53) = 6811694436397875 / 2 ^ 49"
    unfolding fadd_def
    by (subst rnd_eval[where e = 3]) (simp_all add: round_even_def power_int_minus)
  have q: "fquot (6811694436397875 / 2 ^ 49) 24 = 2270564812132625 / 2 ^ 52"
    unfolding fquot_def
    by (subst rnd_eval[where e = "- 1"]) (simp_all add: round_even_def power_int_minus)
  have f: "foldl fadd (1 / 2)
     [1 / 2, 1 / 2, 1 / 2, 1 / 2, 1 / 2, 1 / 2, 1 / 2, 1 / 2, 1 / 2, 1 / 2, 1 / 2,
      1 / 2, 1 / 2, 1 / 2, 1 / 2, 1 / 2, 1 / 2, 1 / 2, 1 / 2, 1 / 2, 1 / 2, 1 / 2, x]
     = fadd (23 / 2) x" for x
    by (simp add: fadd_def[of "1 / 2"] fadd_def[of "numeral n" for n]
        fadd_def[of "numeral n / 2" for n] fadd_def[of 1])
  have len: "real (Suc (length
     [1 / 2, 1 / 2, 1 / 2, 1 / 2, 1 / 2, 1 / 2, 1 / 2, 1 / 2, 1 / 2, 1 / 2, 1 / 2,
      1 / 2, 1 / 2, 1 / 2, 1 / 2, 1 / 2, 1 / 2, 1 / 2, 1 / 2, 1 / 2, 1 / 2, 1 / 2, x :: real]))
     = 24" for x
    by simp
  show ?thesis
    by (simp only: mean_ne_def f len d060 s q)
qed

lemma spike_change:
  "fdiv (fsub (rnd (3 / 5)) (2270564812132625 / 2 ^ 52)) (2270564812132625 / 2 ^ 52)
   = Fin (3424224510066823 / 2 ^ 54)"
proof -
  have a: "fsub (5404319552844595 / 2 ^ 53) (2270564812132625 / 2 ^ 52) = 863189928579345 / 2 ^ 53"
    using rnd_dyadic[of 863189928579345 53] by (simp add: fsub_def)
  have b: "fquot (863189928579345 / 2 ^ 53) (2270564812132625 / 2 ^ 52) = 3424224510066823 / 2 ^ 54"
    unfolding fquot_def
    by (subst rnd_eval[where e = "- 3"]) (simp_all add: round_even_def power_int_minus)
  have c: "fdiv x (2270564812132625 / 2 ^ 52) = Fin (fquot x (2270564812132625 / 2 ^ 52))" for x
    by (simp add: fdiv_def)
  show ?thesis
    by (simp only: d060 a c b)
qed

lemma spike_change_numeral:
  "fdiv (fsub (rnd (3 / 5)) (2270564812132625 / 4503599627370496))
        (2270564812132625 / 4503599627370496)
   = Fin (3424224510066823 / 18014398509481984)"
  using spike_change by simp

lemma spike_target: "clampPrice (fsub (rnd (3 / 5)) (rnd (3 / 100))) = rnd (57 / 100)"
proof -
  have "fsub (rnd (3 / 5)) (rnd (3 / 100)) = 5134103575202365 / 2 ^ 53"
    unfolding fsub_def d060 d003
    by (subst rnd_eval[where e = "- 1"]) (simp_all add: round_even_def power_int_minus)
  then show ?thesis
    by (simp add: clampPrice_def d001 d099 d057)
qed

lemma spike_scenario:
  "spikeDetection_market now Backtest scenario_spike =
     [\<lparr>b_marketId = ''m1'', b_outcome = Some ''Yes'', b_side = Sell, b_amount = 100,
       b_priceLimit = rnd (57 / 100),
       b_reason = SpikeReason (Fin (3424224510066823 / 2 ^ 54)) (2270564812132625 / 2 ^ 52),
       b_timestamp = 86400000\<rparr>]"
proof -
  have hp: "stable_sort by_timestamp_pp (historicalPrices scenario_spike) = historicalPrices scenario_spike"
    by (simp add: scenario_spike_def stable_sort_def by_timestamp_pp_def)
  show ?thesis
    apply (simp add: spikeDetection_market_def isMarketEligible_def hp Let_def)
    apply (simp add: scenario_spike_def market_yes_def determineDecisionTime_def lookbackWindow_def
        spike_mean)
    apply (simp add: Let_def spike_change_numeral spikeThreshold_def d005 first_outcome_def
        spike_betSize_def spike_target)
    apply (simp add: scenario_spike_def market_yes_def determineDecisionTime_def)
    done
qed

text \<open>
  Claim C7. The price limit of every bet of the whale-copy, the spike-reversal and the
  market-making strategy, on any markets, in any context, at any time and for any
  parameters, lies between 0.01 and 0.99: between the two numbers, and between the
  doubles of the two literals, which lie between them.
\<close>

theorem C7_price_clamp:
  assumes "generateBets (copyTradingStrategy params) now markets context = Inr bs
         \<or> generateBets spikeDetectionStrategy now markets context = Inr bs
         \<or> generateBets marketMakingStrategy now markets context = Inr bs"
    and "b \<in> set bs"
  shows "1 / 100 \<le> b_priceLimit b \<and> b_priceLimit b \<le> 99 / 100
       \<and> rnd (1 / 100) \<le> b_priceLimit b \<and> b_priceLimit b \<le> rnd (99 / 100)"
proof -
  from assms have "\<exists>p. b_priceLimit b = clampPrice p"
    by (auto simp: copyTradingStrategy_def spikeDetectionStrategy_def marketMakingStrategy_def
        dest: copyTrading_clamped spikeDetection_clamped marketMaking_clamped)
  then show ?thesis using clampPrice_bounds by auto
qed

theorem C7_price_clamp_witness:
  "generateBets (copyTradingStrategy COPY_TRADING_DEFAULTS) 0 [scenario_whale]
       (backtest_context [] 0)
     = Inr [\<lparr>b_marketId = ''m1'', b_outcome = Some ''Yes'', b_side = Buy, b_amount = 100,
             b_priceLimit = rnd (31 / 50),
             b_reason = WhaleReason 5000 (rnd (3 / 5)), b_timestamp = 3600000\<rparr>]
   \<and> 1 / 100 \<le> rnd (31 / 50) \<and> rnd (31 / 50) \<le> 99 / 100
   \<and> generateBets spikeDetectionStrategy 0 [scenario_spike] (backtest_context [] 0)
     = Inr [\<lparr>b_marketId = ''m1'', b_outcome = Some ''Yes'', b_side = Sell, b_amount = 100,
             b_priceLimit = rnd (57 / 100),
             b_reason = SpikeReason (Fin (3424224510066823 / 2 ^ 54))
                          (2270564812132625 / 2 ^ 52),
             b_timestamp = 86400000\<rparr>]
   \<and> 1 / 100 \<le> rnd (57 / 100) \<and> rnd (57 / 100) \<le> 99 / 100
   \<and> generateBets marketMakingStrategy 0 [market_priced] (backtest_context [] 0)
     = Inr (marketMaking_market 0 Backtest market_priced)
   \<and> map (\<lambda>b. (b_side b, b_amount b, b_priceLimit b))
         (marketMaking_market 0 Backtest market_priced)
     = [(Buy, 100, rnd (47 / 100)), (Sell, 100, rnd (53 / 100))]
   \<and> 1 / 100 \<le> rnd (47 / 100) \<and> rnd (47 / 100) \<le> 99 / 100"
proof -
  have w: "generateBets (copyTradingStrategy COPY_TRADING_DEFAULTS) 0 [scenario_whale]
       (backtest_context [] 0)
     = Inr [\<lparr>b_marketId = ''m1'', b_outcome = Some ''Yes'', b_side = Buy, b_amount = 100,
             b_priceLimit = rnd (31 / 50),
             b_reason = WhaleReason 5000 (rnd (3 / 5)), b_timestamp = 3600000\<rparr>]"
    by (simp add: copyTradingStrategy_def whale_scenario)
  have sp: "generateBets spikeDetectionStrategy 0 [scenario_spike] (backtest_context [] 0)
     = Inr [\<lparr>b_marketId = ''m1'', b_outcome = Some ''Yes'', b_side = Sell, b_amount = 100,
             b_priceLimit = rnd (57 / 100),
             b_reason = SpikeReason (Fin (3424224510066823 / 2 ^ 54))
                          (2270564812132625 / 2 ^ 52),
             b_timestamp = 86400000\<rparr>]"
    by (simp add: spikeDetectionStrategy_def spike_scenario)
  have mm: "generateBets marketMakingStrategy 0 [market_priced] (backtest_context [] 0)
     = Inr (marketMaking_market 0 Backtest market_priced)"
    by (simp add: marketMakingStrategy_def)
  have ms: "map (\<lambda>b. (b_side b, b_amount b, b_priceLimit b))
         (marketMaking_market 0 Backtest market_priced)
     = [(Buy, 100, rnd (47 / 100)), (Sell, 100, rnd (53 / 100))]"
    by (rule mm_scenario)
  then have ne: "marketMaking_market 0 Backtest market_priced \<noteq> []" by auto
  then have mem: "hd (marketMaking_market 0 Backtest market_priced)
      \<in> set (marketMaking_market 0 Backtest market_priced)" by simp
  from ms ne have hd: "b_priceLimit (hd (marketMaking_market 0 Backtest market_priced))
      = rnd (47 / 100)"
    by (cases "marketMaking_market 0 Backtest market_priced") auto
  have a: "1 / 100 \<le> rnd (31 / 50) \<and> rnd (31 / 50) \<le> 99 / 100"
    using C7_price_clamp[OF disjI1[OF w], of
        "\<lparr>b_marketId = ''m1'', b_outcome = Some ''Yes'', b_side = Buy, b_amount = 100,
             b_priceLimit = rnd (31 / 50),
             b_reason = WhaleReason 5000 (rnd (3 / 5)), b_timestamp = 3600000\<rparr>"]
    by simp
  have b: "1 / 100 \<le> rnd (57 / 100) \<and> rnd (57 / 100) \<le> 99 / 100"
    using C7_price_clamp[OF disjI2[OF disjI1[OF sp]], of
        "\<lparr>b_marketId = ''m1'', b_outcome = Some ''Yes'', b_side = Sell, b_amount = 100,
             b_priceLimit = rnd (57 / 100),
             b_reason = SpikeReason (Fin (3424224510066823 / 2 ^ 54))
                          (2270564812132625 / 2 ^ 52),
             b_timestamp = 86400000\<rparr>"]
    by simp
  have c: "1 / 100 \<le> rnd (47 / 100) \<and> rnd (47 / 100) \<le> 99 / 100"
    using C7_price_clamp[OF disjI2[OF disjI2[OF mm]] mem] hd by simp
  from w sp mm ms a b c show ?thesis by simp
qed


section \<open>C8: the decision time\<close>

lemma copyTrading_timestamp:
  "b \<in> set (copyTrading_market params now md market) \<Longrightarrow>
   b_timestamp b = determineDecisionTime now market md"
  by (auto simp: copyTrading_market_def Let_def split: if_splits)

lemma spikeDetection_timestamp:
  "b \<in> set (spikeDetection_market now md market) \<Longrightarrow>
   b_timestamp b = determineDecisionTime now market md"
  by (auto simp: spikeDetection_market_def Let_def split: if_splits list.splits)

lemma marketMaking_timestamp:
  "b \<in> set (marketMaking_market now md market) \<Longrightarrow>
   b_timestamp b = determineDecisionTime now market md"
  by (auto simp: marketMaking_market_def Let_def split: if_splits)

lemma marketMaking_priced_timestamps:
  "map b_timestamp (marketMaking_market 7 Backtest market_priced) = [500, 500]"
  by (simp add: marketMaking_market_def isMarketEligible_def market_priced_def market_yes_def
      minLiquidity_def determineDecisionTime_def Let_def)

text \<open>
  Claim C8. The decision time of a market is, in backtest mode, the timestamp of the last
  price point when there is one, else the end date when there is one, else the resolution
  date when there is one, else the wall-clock time; in live mode it is the wall-clock
  time. Every bet of a reference strategy carries the decision time of its market.
\<close>

theorem C8_decision_time:
  "determineDecisionTime now market md =
     (if md = Live then now
      else if historicalPrices market \<noteq> [] then pp_timestamp (last (historicalPrices market))
      else if endDate market \<noteq> None then the (endDate market)
      else if resolutionDate market \<noteq> None then the (resolutionDate market)
      else now)
   \<and> (\<forall>b\<in>set (copyTrading_market params now md market).
         b_timestamp b = determineDecisionTime now market md)
   \<and> (\<forall>b\<in>set (spikeDetection_market now md market).
         b_timestamp b = determineDecisionTime now market md)
   \<and> (\<forall>b\<in>set (marketMaking_market now md market).
         b_timestamp b = determineDecisionTime now market md)"
proof -
  have "determineDecisionTime now market md =
     (if md = Live then now
      else if historicalPrices market \<noteq> [] then pp_timestamp (last (historicalPrices market))
      else if endDate market \<noteq> None then the (endDate market)
      else if resolutionDate market \<noteq> None then the (resolutionDate market)
      else now)"
    by (cases md) (auto simp: determineDecisionTime_def last_conv_nth split: option.splits)
  then show ?thesis
    using copyTrading_timestamp spikeDetection_timestamp marketMaking_timestamp by blast
qed

theorem C8_decision_time_witness:
  "map b_timestamp (marketMaking_market 7 Backtest market_priced) = [500, 500]
   \<and> determineDecisionTime 7 market_priced Backtest = 500
   \<and> determineDecisionTime 7 market_yes Backtest = 7
   \<and> determineDecisionTime 7 market_priced Live = 7"
  using C8_decision_time[of 7 market_priced Backtest COPY_TRADING_DEFAULTS]
    C8_decision_time[of 7 market_yes Backtest COPY_TRADING_DEFAULTS]
    C8_decision_time[of 7 market_priced Live COPY_TRADING_DEFAULTS]
    marketMaking_priced_timestamps
  by (simp add: market_priced_def market_yes_def)


section \<open>C9: the volatility ranking\<close>

lemma by_variance_desc_iff: "by_variance_desc a b \<longleftrightarrow> variance b \<le> variance a"
  by (simp add: by_variance_desc_def fsub_def rnd_le_0_iff)

lemma sorted_by_variance:
  "sorted_wrt (\<lambda>a b. variance b \<le> variance a) (stable_sort by_variance_desc xs)"
proof -
  have "sorted_wrt by_variance_desc (stable_sort by_variance_desc xs)"
    by (rule sorted_stable_sort) (auto simp: by_variance_desc_iff)
  then show ?thesis
    by (simp add: by_variance_desc_iff[abs_def])
qed

lemma volatile_markets_take:
  "volatile_markets markets = take 5 (stable_sort by_variance_desc (candidates markets))"
  using js_slice_0_take[of 5] by (simp add: volatile_markets_def candidates_def)

lemma variance_flat_1: "variance (volatile_entry (market_flat mid 1)) = 1 / 4"
  by (simp add: volatile_entry_def market_flat_def variance_of_def fadd_def fsub_def fpow2_def
      fquot_def)

lemma variance_flat_half: "variance (volatile_entry (market_flat mid (1 / 2))) = 0"
  by (simp add: volatile_entry_def market_flat_def variance_of_def fadd_def fsub_def fpow2_def
      fquot_def)

lemma candidates_example:
  "candidates [market_priced, market_flat ''calm'' (1 / 2), market_flat ''wild'' 1] =
     [volatile_entry (market_flat ''calm'' (1 / 2)), volatile_entry (market_flat ''wild'' 1)]"
  by (simp add: candidates_def market_priced_def market_flat_def)

lemma volatile_example:
  "volatile_markets [market_priced, market_flat ''calm'' (1 / 2), market_flat ''wild'' 1] =
     [volatile_entry (market_flat ''wild'' 1), volatile_entry (market_flat ''calm'' (1 / 2))]"
  by (simp add: volatile_markets_take candidates_example stable_sort_def by_variance_desc_iff
      variance_flat_1 variance_flat_half)

text \<open>
  Claim C9. The volatile markets are chosen from the markets with more than 10 price
  points, one entry for each, with the market's id and question and with the variance
  that is the sum of the squares of (price - 0.5) over all price points of the market,
  divided by their number. They are the first five, or all when there are fewer, of these
  entries in descending order of variance: the list is in descending order, and no entry
  left out has a greater variance than an entry of the list.
\<close>

theorem C9_volatile_markets:
  "\<exists>rest.
     mset (volatile_markets markets) + mset rest = mset (candidates markets)
     \<and> length (volatile_markets markets) = min 5 (length (candidates markets))
     \<and> sorted_wrt (\<lambda>a b. variance b \<le> variance a) (volatile_markets markets)
     \<and> (\<forall>x\<in>set rest. \<forall>y\<in>set (volatile_markets markets). variance x \<le> variance y)
     \<and> (\<forall>e\<in>set (volatile_markets markets).
           \<exists>m\<in>set markets. 10 < length (historicalPrices m) \<and>
             vm_marketId e = marketId m \<and> vm_question e = question m \<and>
             variance e =
               fquot (foldl (\<lambda>sum p. fadd sum (fpow2 (fsub p (1 / 2)))) 0
                        (map pp_price (historicalPrices m)))
                     (real (length (historicalPrices m))))"
proof -
  define s where "s = stable_sort by_variance_desc (candidates markets)"
  have vm: "volatile_markets markets = take 5 s"
    by (simp add: volatile_markets_take s_def)
  have srt: "sorted_wrt (\<lambda>a b. variance b \<le> variance a) s"
    unfolding s_def by (rule sorted_by_variance)
  have ms: "mset s = mset (candidates markets)"
    by (simp add: s_def mset_stable_sort)
  have len: "length s = length (candidates markets)"
    by (simp add: s_def length_stable_sort)
  have "sorted_wrt (\<lambda>a b. variance b \<le> variance a) (take 5 s @ drop 5 s)"
    using srt by simp
  then have top: "\<forall>x\<in>set (drop 5 s). \<forall>y\<in>set (take 5 s). variance x \<le> variance y"
    and st: "sorted_wrt (\<lambda>a b. variance b \<le> variance a) (take 5 s)"
    unfolding sorted_wrt_append by auto
  have "mset (take 5 s) + mset (drop 5 s) = mset (candidates markets)"
    using ms by (metis append_take_drop_id mset_append)
  moreover have "length (take 5 s) = min 5 (length (candidates markets))"
    using len by simp
  moreover have "\<forall>e\<in>set (take 5 s).
           \<exists>m\<in>set markets. 10 < length (historicalPrices m) \<and>
             vm_marketId e = marketId m \<and> vm_question e = question m \<and>
             variance e =
               fquot (foldl (\<lambda>sum p. fadd sum (fpow2 (fsub p (1 / 2)))) 0
                        (map pp_price (historicalPrices m)))
                     (real (length (historicalPrices m)))"
  proof
    fix e assume "e \<in> set (take 5 s)"
    then have "e \<in> set s" by (rule in_set_takeD)
    then have "e \<in> set (candidates markets)"
      by (simp add: s_def set_stable_sort)
    then show "\<exists>m\<in>set markets. 10 < length (historicalPrices m) \<and>
             vm_marketId e = marketId m \<and> vm_question e = question m \<and>
             variance e =
               fquot (foldl (\<lambda>sum p. fadd sum (fpow2 (fsub p (1 / 2)))) 0
                        (map pp_price (historicalPrices m)))
                     (real (length (historicalPrices m)))"
      by (auto simp: candidates_def volatile_entry_def variance_of_def)
  qed
  ultimately show ?thesis
    unfolding vm using top st by blast
qed

theorem C9_volatile_markets_witness:
  "volatile_markets [market_priced, market_flat ''calm'' (1 / 2), market_flat ''wild'' 1] =
     [volatile_entry (market_flat ''wild'' 1), volatile_entry (market_flat ''calm'' (1 / 2))]
   \<and> variance (volatile_entry (market_flat ''wild'' 1)) = 1 / 4
   \<and> variance (volatile_entry (market_flat ''calm'' (1 / 2))) = 0
   \<and> length (historicalPrices market_priced) = 1
   \<and> length (historicalPrices (market_flat ''wild'' 1)) = 11"
  using C9_volatile_markets[of "[market_priced, market_flat ''calm'' (1 / 2), market_flat ''wild'' 1]"]
    volatile_example variance_flat_1[of "''wild''"] variance_flat_half[of "''calm''"]
  by (simp add: market_priced_def market_flat_def)



section \<open>C10: the shape of a result\<close>

lemma running_sums_snoc:
  "running_sums c (bs @ [b]) =
     running_sums c bs @ [fadd (running_sum c bs) (fsub (payout b) (cost b))]"
  by (induction bs arbitrary: c) (simp_all add: running_sum_def)

lemma length_running_sums [simp]: "length (running_sums c bs) = length bs"
  by (induction bs arbitrary: c) simp_all

lemma running_sums_Nil_iff [simp]: "running_sums c bs = [] \<longleftrightarrow> bs = []"
  by (cases bs) simp_all

lemma last_running_sums: "bs \<noteq> [] \<Longrightarrow> last (running_sums c bs) = running_sum c bs"
  by (induction bs arbitrary: c) (auto simp: running_sum_def)

lemma earnings_inv_step:
  assumes "earnings_inv s" and "simulate_bet sid tms s bet = Inr s'"
  shows "earnings_inv s'"
  using simulate_bet_cases[OF assms(2)] assms(1)
  by (auto simp: earnings_inv_def running_sums_snoc running_sum_def score_bet_def)

lemma simulate_earnings_inv:
  assumes "simulate sid tms bs initial_state = Inr st"
  shows "earnings_inv st"
proof (rule simulate_invariant[OF assms, where I = earnings_inv])
  show "earnings_inv initial_state"
    by (simp add: earnings_inv_def initial_state_def running_sum_def)
next
  fix s bet s'
  assume "earnings_inv s" "simulate_bet sid tms s bet = Inr s'"
  then show "earnings_inv s'" by (rule earnings_inv_step)
qed

lemma wins_plus_losses:
  "list_all (\<lambda>bb. result bb = Win \<or> result bb = Loss) bbs \<Longrightarrow>
   length (filter (\<lambda>b. result b = Win) bbs) + length (filter (\<lambda>b. result b = Loss) bbs)
   = length bbs"
  by (induction bbs) auto

text \<open>The arithmetic of two bets of 100 shares, at 0.07 and at 0.87, the first lost and
  the second won: the costs, the running sum of the earnings, and the net profit.\<close>

lemma cost_007: "fmul 100 (rnd (7 / 100)) = 7881299347898369 / 2 ^ 50"
  unfolding fmul_def d007
  by (subst rnd_eval[where e = 2]) (simp_all add: round_even_def power_int_minus)

lemma cost_087: "fmul 100 (rnd (87 / 100)) = 87"
  unfolding fmul_def d087
  by (subst rnd_eval[where e = 6]) (simp_all add: round_even_def power_int_minus)

lemma cum_value:
  "fadd (fadd 0 (fsub 0 (fmul 100 (rnd (7 / 100))))) (fsub 100 (fmul 100 (rnd (87 / 100))))
   = 6755399441055743 / 2 ^ 50"
proof -
  have a: "fsub 0 (7881299347898369 / 2 ^ 50) = - (7881299347898369 / 2 ^ 50)"
    using rnd_dyadic[of "- 7881299347898369" 50] by (simp add: fsub_def)
  have b: "fadd 0 (- (7881299347898369 / 2 ^ 50)) = - (7881299347898369 / 2 ^ 50)"
    using rnd_dyadic[of "- 7881299347898369" 50] by (simp add: fadd_def)
  have c: "fsub 100 87 = 13"
    by (simp add: fsub_def)
  have d: "fadd (- (7881299347898369 / 2 ^ 50)) 13 = 6755399441055743 / 2 ^ 50"
    using rnd_dyadic[of 6755399441055743 50] by (simp add: fadd_def)
  show ?thesis
    by (simp only: cost_007 cost_087 a b c d)
qed

lemma net_value:
  "fsub (fadd (fadd 0 0) 100)
        (fadd (fadd 0 (fmul 100 (rnd (7 / 100)))) (fmul 100 (rnd (87 / 100)))) = 6"
proof -
  have a: "fadd 0 (7881299347898369 / 2 ^ 50) = 7881299347898369 / 2 ^ 50"
    using rnd_dyadic[of 7881299347898369 50] by (simp add: fadd_def)
  have b: "fadd (7881299347898369 / 2 ^ 50) 87 = 94"
    unfolding fadd_def
    by (subst rnd_eval[where e = 6]) (simp_all add: round_even_def power_int_minus)
  have c: "fsub (fadd (fadd 0 0) 100) 94 = 6"
    by (simp add: fadd_def fsub_def)
  show ?thesis
    by (simp only: cost_007 cost_087 a b c)
qed

text \<open>
  Claim C10, as stated, fails in its last part. A strategy proposes, on a market resolved
  to Yes, a sell of 100 shares of Yes at 0.07, which loses, and a buy of 100 shares of
  Yes at 0.87, which wins. Both are counted. The cumulative earnings of the last earnings
  point are \<open>(0 + (0 - 7.000000000000001)) + (100 - 87)\<close>, the double
  5.999999999999999, and the net profit is \<open>100 - (7.000000000000001 + 87)\<close>, where the
  sum rounds to 94: it is 6.
\<close>

theorem C10_counterexample:
  "map_sum id (\<lambda>r. (totalBets r, cumulativeEarnings (last (earningsOverTime r)), netProfit r))
     (backtest 0
        (fixed_strategy [bet_on ''m1'' Sell 100 (rnd (7 / 100)),
                         bet_on ''m1'' Buy 100 (rnd (87 / 100))])
        [market_yes] default_trainingRatio)
   = Inr (2, 6755399441055743 / 2 ^ 50, 6)
   \<and> (6755399441055743 / 2 ^ 50 :: real) \<noteq> 6"
proof -
  have "backtest 0
        (fixed_strategy [bet_on ''m1'' Sell 100 (rnd (7 / 100)),
                         bet_on ''m1'' Buy 100 (rnd (87 / 100))])
        [market_yes] default_trainingRatio =
       Inr (metrics (fixed_strategy [bet_on ''m1'' Sell 100 (rnd (7 / 100)),
                         bet_on ''m1'' Buy 100 (rnd (87 / 100))])
         \<lparr>backtestBets = [score_bet (bet_on ''m1'' Sell 100 (rnd (7 / 100))) False,
                          score_bet (bet_on ''m1'' Buy 100 (rnd (87 / 100))) True],
          cumulative = fadd (fadd 0 (fsub 0 (fmul 100 (rnd (7 / 100)))))
                         (fsub 100 (fmul 100 (rnd (87 / 100)))),
          earnings = [\<lparr>ep_timestamp = 0,
                       cumulativeEarnings = fadd 0 (fsub 0 (fmul 100 (rnd (7 / 100)))),
                       ep_strategyId = ''fixed''\<rparr>,
                      \<lparr>ep_timestamp = 0,
                       cumulativeEarnings = fadd (fadd 0 (fsub 0 (fmul 100 (rnd (7 / 100)))))
                         (fsub 100 (fmul 100 (rnd (87 / 100)))),
                       ep_strategyId = ''fixed''\<rparr>]\<rparr>)"
    apply (simp add: backtest_def fixed_strategy_def test_markets_yes)
    apply (simp add: simulate_bet_def find_market_def bet_on_def truthy_def isBetWinner_def
       lower_Yes initial_state_def score_bet_def market_yes_def Let_def)
    done
  then show ?thesis
    by (simp add: metrics_def Let_def score_bet_def bet_on_def cum_value net_value)
qed

text \<open>
  Claim C10, amended. In every result of a backtest there is one earnings point for each
  counted bet, every counted bet is a win or a loss, so that the wins and the losses add
  up to the bets, and the cumulative earnings of the points are the running sums of
  payout minus cost over the counted bets, added up in order from 0, each sum rounded:
  when there is a bet, the last of them is the running sum over all bets. The net profit
  is the sum of the payouts minus the sum of the costs, each added up on its own and
  rounded at each step. Without rounding the two numbers would be the same.
\<close>

theorem C10_result_shape:
  assumes "backtest now strategy markets trainingRatio = Inr res"
  shows "length (earningsOverTime res) = totalBets res
       \<and> list_all (\<lambda>bb. result bb = Win \<or> result bb = Loss) (bets res)
       \<and> wins res + losses res = totalBets res
       \<and> map cumulativeEarnings (earningsOverTime res) = running_sums 0 (bets res)
       \<and> (if totalBets res > 0
           then cumulativeEarnings (last (earningsOverTime res)) = running_sum 0 (bets res)
           else earningsOverTime res = [])
       \<and> netProfit res =
           fsub (foldl (\<lambda>sum b. fadd sum (payout b)) 0 (bets res))
                (foldl (\<lambda>sum b. fadd sum (cost b)) 0 (bets res))
       \<and> (\<Sum>b\<leftarrow>bets res. payout b - cost b) =
           (\<Sum>b\<leftarrow>bets res. payout b) - (\<Sum>b\<leftarrow>bets res. cost b)"
proof -
  from assms obtain proposed st where
    sim: "simulate (strategy_id strategy) (test_markets markets trainingRatio) proposed
            initial_state = Inr st"
    and res: "res = metrics strategy st"
    by (rule backtest_Inr)
  have inv: "earnings_inv st" by (rule simulate_earnings_inv[OF sim])
  then have m: "map cumulativeEarnings (earnings st) = running_sums 0 (backtestBets st)"
    and la: "list_all (\<lambda>bb. result bb = Win \<or> result bb = Loss) (backtestBets st)"
    by (simp_all add: earnings_inv_def)
  from m have len: "length (earnings st) = length (backtestBets st)"
    by (metis length_map length_running_sums)
  have lastc: "cumulativeEarnings (last (earnings st)) = running_sum 0 (backtestBets st)"
    if "backtestBets st \<noteq> []"
  proof -
    from that len have ne: "earnings st \<noteq> []" by auto
    then have "cumulativeEarnings (last (earnings st)) = last (map cumulativeEarnings (earnings st))"
      by (simp add: last_map)
    also have "\<dots> = running_sum 0 (backtestBets st)"
      using that by (simp add: m last_running_sums)
    finally show ?thesis .
  qed
  show ?thesis
    using len la m lastc wins_plus_losses[OF la]
    by (auto simp: res metrics_fields bets_metrics sum_list_subtractf)
qed

theorem C10_result_shape_witness:
  "backtest 0 (fixed_strategy [bet_on ''m1'' Buy 100 (1 / 2)]) [market_yes] default_trainingRatio =
     Inr (metrics (fixed_strategy [bet_on ''m1'' Buy 100 (1 / 2)])
       \<lparr>backtestBets = [score_bet (bet_on ''m1'' Buy 100 (1 / 2)) True],
        cumulative = 50,
        earnings = [\<lparr>ep_timestamp = 0, cumulativeEarnings = 50, ep_strategyId = ''fixed''\<rparr>]\<rparr>)
   \<and> totalBets (metrics (fixed_strategy [bet_on ''m1'' Buy 100 (1 / 2)])
       \<lparr>backtestBets = [score_bet (bet_on ''m1'' Buy 100 (1 / 2)) True],
        cumulative = 50,
        earnings = [\<lparr>ep_timestamp = 0, cumulativeEarnings = 50, ep_strategyId = ''fixed''\<rparr>]\<rparr>) = 1
   \<and> running_sum 0 [score_bet (bet_on ''m1'' Buy 100 (1 / 2)) True] = 50"
  using C10_result_shape[OF example_run] example_run
  by (simp add: metrics_fields bets_metrics)


end
